theory Spec2Isabelle
  imports Main "HOL-Library.Word" "HOL-Library.Char_ord" "HOL-Library.List_Lexorder"
    "HOL-Library.Product_Lexorder"
begin

section \<open>Errors and Go primitives\<close>

text \<open>
  A Go \<open>error\<close> value carries its message; a runtime panic (slice bounds out of range,
  failed type assertion) is a separate constructor, so that a crash is never confused
  with a returned error.
\<close>

datatype error = Error string | Panic string

type_synonym uint = "64 word"

text \<open>\<open>strconv.FormatUint(n, 10)\<close> and \<open>strconv.FormatInt(i, 10)\<close>.\<close>

definition digit_char :: "nat \<Rightarrow> char" where
  "digit_char d = ''0123456789'' ! d"

function FormatUint :: "nat \<Rightarrow> string" where
  "FormatUint n = (if n < 10 then [digit_char n] else FormatUint (n div 10) @ [digit_char (n mod 10)])"
  by pat_completeness auto
termination
  by (relation "measure id") auto

declare FormatUint.simps [simp del]

definition FormatInt :: "int \<Rightarrow> string" where
  "FormatInt i = (if i < 0 then CHR ''-'' # FormatUint (nat (- i)) else FormatUint (nat i))"

section \<open>Dynconfig and replicable data sources\<close>

record seed_peer =
  Ip :: string
  ObjectStoragePort :: "32 word"

record scheduler =
  SeedPeers :: "seed_peer list"

text \<open>
  The part of \<open>ConfInfo\<close> that the dataset code reads: \<open>Opt.ObjectStorage.MaxReplicas\<close>
  (a Go \<open>int\<close>), \<open>Opt.Host.AdvertiseIP.String()\<close>, the answer of
  \<open>DynConfig.GetSchedulers()\<close>, and the draws of the random source that
  \<open>rand.Shuffle\<close> consumes (\<open>Draw i\<close> is the value drawn when position \<open>i\<close> is swapped).
\<close>

record conf_info =
  MaxReplicas :: "64 word"
  AdvertiseIP :: string
  GetSchedulers :: "error + scheduler list"
  Draw :: "nat \<Rightarrow> nat"

text \<open>
  Modelled from the spec: \<open>pkgstrings.Unique\<close> is not among the sources; the spec counts
  replicable sources without duplicates. The first occurrence of every string is kept.
\<close>

fun unique_acc :: "string list \<Rightarrow> string list \<Rightarrow> string list" where
  "unique_acc res [] = res"
| "unique_acc res (x # xs) = (if x \<in> set res then unique_acc res xs else unique_acc (res @ [x]) xs)"

definition Unique :: "string list \<Rightarrow> string list" where
  "Unique s = unique_acc [] s"

text \<open>\<open>rand.Shuffle(n, swap)\<close>: for \<open>i = n - 1\<close> down to \<open>1\<close>, swap positions \<open>i\<close> and \<open>j \<in> [0, i]\<close>.\<close>

definition swap :: "'a list \<Rightarrow> nat \<Rightarrow> nat \<Rightarrow> 'a list" where
  "swap xs i j = xs[i := xs ! j, j := xs ! i]"

fun shuffle_from :: "(nat \<Rightarrow> nat) \<Rightarrow> nat \<Rightarrow> 'a list \<Rightarrow> 'a list" where
  "shuffle_from draw 0 xs = xs"
| "shuffle_from draw (Suc i) xs = shuffle_from draw i (swap xs (Suc i) (draw (Suc i) mod (Suc (Suc i))))"

definition Shuffle :: "(nat \<Rightarrow> nat) \<Rightarrow> 'a list \<Rightarrow> 'a list" where
  "Shuffle draw xs = shuffle_from draw (length xs - 1) xs"

text \<open>The two nested loops of \<open>GetReplicableDataSources\<close>, before \<open>Unique\<close> and the shuffle.\<close>

definition host_port :: "seed_peer \<Rightarrow> string" where
  "host_port p = Ip p @ '':'' @ FormatInt (sint (ObjectStoragePort p))"

definition replicable :: "string \<Rightarrow> seed_peer \<Rightarrow> bool" where
  "replicable hostIp p \<longleftrightarrow> hostIp \<noteq> Ip p \<and> 0 < sint (ObjectStoragePort p)"

definition seedPeerHosts :: "string \<Rightarrow> scheduler list \<Rightarrow> string list" where
  "seedPeerHosts hostIp schedulers =
     concat (map (\<lambda>s. map host_port (filter (replicable hostIp) (SeedPeers s))) schedulers)"

definition GetReplicableDataSources :: "conf_info \<Rightarrow> error + string list" where
  "GetReplicableDataSources conf =
     (case GetSchedulers conf of
        Inl err \<Rightarrow> Inl err
      | Inr schedulers \<Rightarrow>
          Inr (Shuffle (Draw conf) (Unique (seedPeerHosts (AdvertiseIP conf) schedulers))))"

definition validateReplica :: "conf_info \<Rightarrow> uint \<Rightarrow> error option" where
  "validateReplica conf wantedReplicas =
     (if sint (MaxReplicas conf) < sint wantedReplicas
      then Some (Error (''wanted replicas: '' @ FormatUint (unat wantedReplicas)
                  @ '' is large than the max datasource count of system setting: ''
                  @ FormatInt (sint (MaxReplicas conf))))
      else case GetReplicableDataSources conf of
        Inl err \<Rightarrow> Some err
      | Inr replicableDataSources \<Rightarrow>
          (let replicableDataSourceCnt = (of_nat (length replicableDataSources) :: uint)
           in if replicableDataSourceCnt < wantedReplicas
              then Some (Error (''wanted replicas: '' @ FormatUint (unat wantedReplicas)
                          @ '' is large than replicable datasource count: ''
                          @ FormatUint (unat replicableDataSourceCnt)))
              else None))"

text \<open>The replicable data sources as a set: the distinct \<open>ip:port\<close> strings of the seed
  peers whose IP is not the advertise IP and whose object-storage port is positive.\<close>

definition replicable_sources :: "conf_info \<Rightarrow> scheduler list \<Rightarrow> string set" where
  "replicable_sources conf schedulers = set (seedPeerHosts (AdvertiseIP conf) schedulers)"

text \<open>A configuration used to run the code: three seed peers listed by one scheduler, one
  of them the local host, one with no object-storage port, one listed twice.\<close>

definition conf_example :: conf_info where
  "conf_example =
     \<lparr>MaxReplicas = 3, AdvertiseIP = ''10.0.0.1'',
      GetSchedulers = Inr [\<lparr>SeedPeers =
        [\<lparr>Ip = ''10.0.0.1'', ObjectStoragePort = 65004\<rparr>,
         \<lparr>Ip = ''10.0.0.2'', ObjectStoragePort = 65004\<rparr>,
         \<lparr>Ip = ''10.0.0.3'', ObjectStoragePort = 0\<rparr>,
         \<lparr>Ip = ''10.0.0.4'', ObjectStoragePort = 65004\<rparr>,
         \<lparr>Ip = ''10.0.0.2'', ObjectStoragePort = 65004\<rparr>]\<rparr>],
      Draw = (\<lambda>i. 0)\<rparr>"

section \<open>Strings, numbers and JSON\<close>

text \<open>\<open>strings.Join(elems, sep)\<close>, \<open>strings.Split(s, sep)\<close> for a one-byte separator, and
  \<open>strings.SplitN(s, sep, 2)\<close>.\<close>

fun Join :: "string list \<Rightarrow> string \<Rightarrow> string" where
  "Join [] sep = []"
| "Join [x] sep = x"
| "Join (x # y # ys) sep = x @ sep @ Join (y # ys) sep"

fun Split :: "string \<Rightarrow> char \<Rightarrow> string list" where
  "Split [] c = [[]]"
| "Split (x # xs) c =
     (if x = c then [] # Split xs c
      else (case Split xs c of [] \<Rightarrow> [[x]] | y # ys \<Rightarrow> (x # y) # ys))"

fun SplitN2 :: "string \<Rightarrow> char \<Rightarrow> string list" where
  "SplitN2 [] c = [[]]"
| "SplitN2 (x # xs) c =
     (if x = c then [[], xs]
      else (case SplitN2 xs c of [] \<Rightarrow> [[x]] | y # ys \<Rightarrow> (x # y) # ys))"

text \<open>A text between double quotes, as \<open>strconv.Quote\<close> and \<open>json.Marshal\<close> write one that has
  no character to escape.\<close>

definition quote :: "string \<Rightarrow> string" where
  "quote s = [CHR 0x22] @ s @ [CHR 0x22]"

text \<open>\<open>strconv.Atoi\<close>: an optional sign, then decimal digits; the value must fit a 64-bit
  \<open>int\<close>.\<close>

definition digit_val :: "char \<Rightarrow> nat option" where
  "digit_val c = (if c \<in> set ''0123456789'' then Some (of_char c - 48) else None)"

fun parse_digits :: "nat \<Rightarrow> string \<Rightarrow> nat option" where
  "parse_digits acc [] = Some acc"
| "parse_digits acc (c # cs) =
     (case digit_val c of None \<Rightarrow> None | Some d \<Rightarrow> parse_digits (acc * 10 + d) cs)"

definition Atoi :: "string \<Rightarrow> error + int" where
  "Atoi s =
     (let neg = (take 1 s = ''-'');
          ds = (if take 1 s = ''-'' \<or> take 1 s = ''+'' then drop 1 s else s)
      in if ds = [] then Inl (Error (''strconv.Atoi: parsing '' @ quote s @ '': invalid syntax''))
         else (case parse_digits 0 ds of
                 None \<Rightarrow> Inl (Error (''strconv.Atoi: parsing '' @ quote s @ '': invalid syntax''))
               | Some n \<Rightarrow>
                   (let v = (if neg then - int n else int n)
                    in if v < - (2 ^ 63) \<or> 2 ^ 63 \<le> v
                       then Inl (Error (''strconv.Atoi: parsing '' @ quote s @ '': value out of range''))
                       else Inr v)))"

text \<open>
  Modelled from the spec: the declaration of \<open>UrchinEndpoint\<close> is not among the sources;
  the spec describes an endpoint record as the pair \<open>(endpoint, endpoint_path)\<close>.
\<close>

record UrchinEndpoint =
  Endpoint :: string
  EndpointPath :: string

text \<open>
  Byte strings as the store and the HTTP bodies hold them. \<open>encoding/json\<close> is library
  code: a byte string that \<open>json.Marshal\<close> produced from a list of endpoints or of strings
  is represented by that list, and \<open>json.Unmarshal\<close> gives the list back. \<open>Raw\<close> holds any
  other text; of the raw texts only the literals \<open>[]\<close> and \<open>null\<close> decode as a list.
\<close>

datatype bytes = Raw string | JsonEndpoints "UrchinEndpoint list" | JsonStrings "string list"

definition json_error :: error where
  "json_error = Error ''json: cannot unmarshal''"

fun unmarshal_endpoints :: "bytes \<Rightarrow> error + UrchinEndpoint list" where
  "unmarshal_endpoints (JsonEndpoints xs) = Inr xs"
| "unmarshal_endpoints (JsonStrings xs) = (if xs = [] then Inr [] else Inl json_error)"
| "unmarshal_endpoints (Raw s) = (if s = ''[]'' \<or> s = ''null'' then Inr [] else Inl json_error)"

fun unmarshal_strings :: "bytes \<Rightarrow> error + string list" where
  "unmarshal_strings (JsonStrings xs) = Inr xs"
| "unmarshal_strings (JsonEndpoints xs) = (if xs = [] then Inr [] else Inl json_error)"
| "unmarshal_strings (Raw s) = (if s = ''[]'' \<or> s = ''null'' then Inr [] else Inl json_error)"

text \<open>The text of a byte string (\<open>string(v)\<close>). For the JSON values it is the text that
  \<open>json.Marshal\<close> writes when no character needs escaping.\<close>

definition endpoint_text :: "UrchinEndpoint \<Rightarrow> string" where
  "endpoint_text e =
     ''{'' @ quote ''endpoint'' @ '':'' @ quote (Endpoint e) @ '',''
          @ quote ''endpoint_path'' @ '':'' @ quote (EndpointPath e) @ ''}''"

fun string_of :: "bytes \<Rightarrow> string" where
  "string_of (Raw s) = s"
| "string_of (JsonEndpoints xs) = ''['' @ Join (map endpoint_text xs) '','' @ '']''"
| "string_of (JsonStrings xs) = ''['' @ Join (map quote xs) '','' @ '']''"

section \<open>The key-value store, the seed peers and the clock\<close>

text \<open>
  Modelled from the spec: the declarations of \<open>UrchinDataSetInfo\<close> and of
  \<open>UrchinDataSetVersionInfo\<close> are not among the sources. The fields are those the code
  reads and writes; \<open>MetaSources\<close> and \<open>MetaCaches\<close> hold JSON text.
\<close>

record UrchinDataSetInfo =
  Id :: string
  Name :: string
  Desc :: string
  Replica :: uint
  CacheStrategy :: string
  Tags :: "string list"
  ShareBlobSources :: "UrchinEndpoint list"
  ShareBlobCaches :: "UrchinEndpoint list"

record UrchinDataSetVersionInfo =
  VersionID :: string
  VersionName :: string
  CreateAt :: int
  MetaSources :: bytes
  MetaCaches :: bytes

text \<open>What a function does to the outside: commands sent to the store, HTTP requests
  dispatched, and sleeps (seconds). A request is recorded by its method and by the fields
  \<open>Host\<close> and \<open>Path\<close> of the \<open>url.URL\<close> that the code builds; \<open>URL.String()\<close> writes them
  out, with a \<open>/\<close> between a host and the path.\<close>

datatype event =
    HSet string string bytes
  | HMSet string "(string \<times> bytes) list"
  | HDelAll string
  | StrSet string bytes
  | KeyDel string
  | ZAddEv string string int
  | ZRemEv string string
  | SAddEv string string
  | ExpireEv string nat
  | VersionCreate string UrchinDataSetVersionInfo
  | VersionUpdate string string UrchinDataSetVersionInfo
  | HttpDo string string string
  | Sleep nat

text \<open>The body of an HTTP response after \<open>json.Unmarshal\<close> into \<open>map[string]any\<close>: not
  JSON at all, or an object whose members are numbers (carried as the integer that
  Go's conversion \<open>int(float64)\<close> yields), strings or something else.\<close>

datatype jany = JNumber int | JString string | JOther

datatype body = NotJson | JsonObject "(string \<times> jany) list"

text \<open>What happens to one HTTP request: the request cannot be built, the transport
  fails, or a response with a status code and a body arrives.\<close>

datatype http_reply = BuildError string | TransportError string | Response nat body

text \<open>
  The world the dataset code runs in. The store has hashes, string keys, sorted sets
  (member and score) and plain sets; \<open>Versions\<close> is the version repository, by dataset id.
  \<open>Faults\<close> says which store commands fail (command number \<open>Ops\<close>), \<open>Replies\<close> what the
  seed peers answer (request number \<open>Calls\<close>), \<open>Now\<close> is the unix time. The last two fields
  are the Go runtime and library the code runs on, which decide how much room a slice
  has beyond its length: \<open>GrowCap size c\<close> is the capacity that \<open>append\<close> chooses for a full
  slice of capacity \<open>c\<close> (elements of \<open>size\<close> bytes), \<open>JsonCap size n\<close> the capacity of a slice
  that \<open>json.Unmarshal\<close> decoded from an array of \<open>n\<close> elements.
\<close>

record world =
  Hashes :: "string \<rightharpoonup> (string \<rightharpoonup> bytes)"
  Strings :: "string \<rightharpoonup> bytes"
  ZSets :: "string \<rightharpoonup> (string \<times> int) list"
  Sets :: "string \<rightharpoonup> string list"
  Versions :: "string \<Rightarrow> UrchinDataSetVersionInfo list"
  Trace :: "event list"
  Faults :: "nat \<Rightarrow> bool"
  Ops :: nat
  Replies :: "nat \<Rightarrow> http_reply"
  Calls :: nat
  Now :: int
  GrowCap :: "nat \<Rightarrow> nat \<Rightarrow> nat"
  JsonCap :: "nat \<Rightarrow> nat \<Rightarrow> nat"

type_synonym 'a io = "world \<Rightarrow> (error + 'a) \<times> world"

definition return :: "'a \<Rightarrow> 'a io" where
  "return x w = (Inr x, w)"

definition fail :: "error \<Rightarrow> 'a io" where
  "fail err w = (Inl err, w)"

definition bind :: "'a io \<Rightarrow> ('a \<Rightarrow> 'b io) \<Rightarrow> 'b io" where
  "bind m f w = (case m w of (Inl err, w') \<Rightarrow> (Inl err, w') | (Inr x, w') \<Rightarrow> f x w')"

definition emit :: "event \<Rightarrow> world \<Rightarrow> world" where
  "emit e w = w\<lparr>Trace := Trace w @ [e]\<rparr>"

definition message :: "error \<Rightarrow> string" where
  "message err = (case err of Error s \<Rightarrow> s | Panic s \<Rightarrow> s)"

subsection \<open>The store adapter\<close>

text \<open>
  Modelled from the spec: \<open>RedisStorage\<close> (the KV index adapter of the spec, section 4.1)
  is not among the sources. Every command may fail in transport; otherwise it has the
  meaning of the Redis command the spec names. \<open>ReadMap\<close> of a key with no hash is the
  empty map and no error (as \<open>HGETALL\<close>), which is what the callers' tests of the
  \<open>id\<close> field expect; \<open>GetMapElement\<close> and \<open>Get\<close> of something missing are errors.
  Keys follow the grammar \<open>namespace:seg1:seg2:...\<close>.
\<close>

definition ErrorRedis :: error where
  "ErrorRedis = Error ''redis: connection failed''"

definition ErrorNotExists :: error where
  "ErrorNotExists = Error ''not exists''"

definition command :: "'a io \<Rightarrow> 'a io" where
  "command op w =
     (let w' = w\<lparr>Ops := Suc (Ops w)\<rparr>
      in if Faults w (Ops w) then (Inl ErrorRedis, w') else op w')"

definition StoragePrefixDataset :: string where
  "StoragePrefixDataset = ''urchin:dataset''"

definition DatasetCreateTimeKey :: string where
  "DatasetCreateTimeKey = ''urchin:dataset:create_time''"

definition DefaultDatasetVersion :: string where
  "DefaultDatasetVersion = ''default''"

definition MakeStorageKey :: "string list \<Rightarrow> string \<Rightarrow> string" where
  "MakeStorageKey segments prefix =
     (if prefix = [] then Join segments '':'' else prefix @ '':'' @ Join segments '':'')"

definition hash_of :: "world \<Rightarrow> string \<Rightarrow> (string \<rightharpoonup> bytes)" where
  "hash_of w key = (case Hashes w key of None \<Rightarrow> Map.empty | Some m \<Rightarrow> m)"

definition ReadMap :: "string \<Rightarrow> (string \<rightharpoonup> bytes) io" where
  "ReadMap key = command (\<lambda>w. (Inr (hash_of w key), w))"

definition GetMapElement :: "string \<Rightarrow> string \<Rightarrow> string io" where
  "GetMapElement key field =
     command (\<lambda>w. case hash_of w key field of
                     None \<Rightarrow> (Inl ErrorNotExists, w)
                   | Some v \<Rightarrow> (Inr (string_of v), w))"

definition SetMapElement :: "string \<Rightarrow> string \<Rightarrow> bytes \<Rightarrow> unit io" where
  "SetMapElement key field v =
     command (\<lambda>w. (Inr (),
        emit (HSet key field v) (w\<lparr>Hashes := (Hashes w)(key \<mapsto> (hash_of w key)(field \<mapsto> v))\<rparr>)))"

definition SetMapElements :: "string \<Rightarrow> (string \<times> bytes) list \<Rightarrow> unit io" where
  "SetMapElements key vals =
     command (\<lambda>w. (Inr (),
        emit (HMSet key vals) (w\<lparr>Hashes := (Hashes w)(key \<mapsto> hash_of w key ++ map_of (rev vals))\<rparr>)))"

definition DeleteMap :: "string \<Rightarrow> unit io" where
  "DeleteMap key =
     command (\<lambda>w. (Inr (), emit (HDelAll key) (w\<lparr>Hashes := (Hashes w)(key := None)\<rparr>)))"

definition Set :: "string \<Rightarrow> bytes \<Rightarrow> unit io" where
  "Set key v =
     command (\<lambda>w. (Inr (), emit (StrSet key v) (w\<lparr>Strings := (Strings w)(key \<mapsto> v)\<rparr>)))"

definition Get :: "string \<Rightarrow> bytes io" where
  "Get key =
     command (\<lambda>w. case Strings w key of None \<Rightarrow> (Inl ErrorNotExists, w) | Some v \<Rightarrow> (Inr v, w))"

definition Del :: "string \<Rightarrow> unit io" where
  "Del key =
     command (\<lambda>w. (Inr (),
        emit (KeyDel key)
          (w\<lparr>Strings := (Strings w)(key := None), Hashes := (Hashes w)(key := None),
             ZSets := (ZSets w)(key := None), Sets := (Sets w)(key := None)\<rparr>)))"

definition Exists :: "string \<Rightarrow> bool io" where
  "Exists key =
     command (\<lambda>w. (Inr (Strings w key \<noteq> None \<or> Hashes w key \<noteq> None
                          \<or> ZSets w key \<noteq> None \<or> Sets w key \<noteq> None), w))"

definition zset_of :: "world \<Rightarrow> string \<Rightarrow> (string \<times> int) list" where
  "zset_of w key = (case ZSets w key of None \<Rightarrow> [] | Some z \<Rightarrow> z)"

definition ZAdd :: "string \<Rightarrow> string \<Rightarrow> int \<Rightarrow> unit io" where
  "ZAdd key member score =
     command (\<lambda>w. (Inr (),
        emit (ZAddEv key member score)
          (w\<lparr>ZSets := (ZSets w)(key \<mapsto>
                filter (\<lambda>(m, s). m \<noteq> member) (zset_of w key) @ [(member, score)])\<rparr>)))"

definition ZRem :: "string \<Rightarrow> string \<Rightarrow> unit io" where
  "ZRem key member =
     command (\<lambda>w. (Inr (),
        emit (ZRemEv key member)
          (w\<lparr>ZSets := (case filter (\<lambda>(m, s). m \<noteq> member) (zset_of w key) of
                          [] \<Rightarrow> (ZSets w)(key := None)
                        | z # zs \<Rightarrow> (ZSets w)(key \<mapsto> z # zs))\<rparr>)))"

subsection \<open>The version repository\<close>

text \<open>
  Modelled from the spec: the package \<open>urchin_dataset_vesion\<close> (the version repository,
  section 4.5) is not among the sources. \<open>create\<close> adds a version to the dataset,
  \<open>list_all\<close> returns the dataset's versions, \<open>update\<close> patches the fields that the patch
  sets (here \<open>MetaCaches\<close>; an empty text leaves the field as it is).
\<close>

definition CreateDataSetVersionImpl :: "string \<Rightarrow> UrchinDataSetVersionInfo \<Rightarrow> unit io" where
  "CreateDataSetVersionImpl dataSetID v =
     command (\<lambda>w. (Inr (),
        emit (VersionCreate dataSetID v)
          (w\<lparr>Versions := (Versions w)(dataSetID := Versions w dataSetID @ [v])\<rparr>)))"

definition ListAllDataSetVersions :: "string \<Rightarrow> UrchinDataSetVersionInfo list io" where
  "ListAllDataSetVersions dataSetID = command (\<lambda>w. (Inr (Versions w dataSetID), w))"

definition patch_version ::
  "string \<Rightarrow> UrchinDataSetVersionInfo \<Rightarrow> UrchinDataSetVersionInfo \<Rightarrow> UrchinDataSetVersionInfo" where
  "patch_version versionID patch v =
     (if VersionID v = versionID \<and> MetaCaches patch \<noteq> Raw []
      then v\<lparr>MetaCaches := MetaCaches patch\<rparr> else v)"

definition UpdateDataSetVersionImpl ::
  "string \<Rightarrow> string \<Rightarrow> UrchinDataSetVersionInfo \<Rightarrow> unit io" where
  "UpdateDataSetVersionImpl dataSetID versionID patch =
     command (\<lambda>w. (Inr (),
        emit (VersionUpdate dataSetID versionID patch)
          (w\<lparr>Versions := (Versions w)(dataSetID :=
                map (patch_version versionID patch) (Versions w dataSetID))\<rparr>)))"

definition score_order :: "(string \<times> int) list \<Rightarrow> (string \<times> int) list" where
  "score_order z = sort_key (\<lambda>(m, s). (s, m)) z"

definition page :: "int \<Rightarrow> int \<Rightarrow> 'a list \<Rightarrow> 'a list" where
  "page offset count xs =
     (if offset < 0 then []
      else if count < 0 then drop (nat offset) xs
      else take (nat count) (drop (nat offset) xs))"

definition ZRangeByScore :: "string \<Rightarrow> int \<Rightarrow> int \<Rightarrow> int \<Rightarrow> int \<Rightarrow> string list io" where
  "ZRangeByScore key lo hi offset count =
     command (\<lambda>w. (Inr (page offset count
        (map fst (filter (\<lambda>(m, s). lo \<le> s \<and> s \<le> hi) (score_order (zset_of w key))))), w))"

definition ZRevRangeByScore :: "string \<Rightarrow> int \<Rightarrow> int \<Rightarrow> int \<Rightarrow> int \<Rightarrow> string list io" where
  "ZRevRangeByScore key lo hi offset count =
     command (\<lambda>w. (Inr (page offset count
        (map fst (filter (\<lambda>(m, s). lo \<le> s \<and> s \<le> hi) (rev (score_order (zset_of w key)))))), w))"

subsection \<open>The seed-peer HTTP client and the clock\<close>

text \<open>\<open>filepath.Join\<close> (on a system whose separator is \<open>/\<close>): the elements from the first
  non-empty one on are joined by \<open>/\<close> and the result is cleaned by \<open>filepath.Clean\<close>: empty
  and \<open>.\<close> components go, a \<open>..\<close> takes the component before it away (or stays, at the
  start of a path that is not rooted), and no slash is left at the end.\<close>

fun clean_components :: "bool \<Rightarrow> string list \<Rightarrow> string list \<Rightarrow> string list" where
  "clean_components rooted out [] = out"
| "clean_components rooted out (c # cs) =
     (if c = [] \<or> c = ''.'' then clean_components rooted out cs
      else if c = ''..'' then
        (if out \<noteq> [] \<and> last out \<noteq> ''..'' then clean_components rooted (butlast out) cs
         else if rooted then clean_components rooted out cs
         else clean_components rooted (out @ [''..'']) cs)
      else clean_components rooted (out @ [c]) cs)"

definition Clean :: "string \<Rightarrow> string" where
  "Clean path =
     (if path = [] then ''.''
      else (let rooted = (hd path = CHR ''/'');
                out = clean_components rooted [] (Split path CHR ''/'')
            in if rooted then ''/'' @ Join out ''/''
               else if out = [] then ''.'' else Join out ''/''))"

definition filepath_Join :: "string list \<Rightarrow> string" where
  "filepath_Join elem =
     (case dropWhile (\<lambda>e. e = []) elem of [] \<Rightarrow> [] | e # es \<Rightarrow> Clean (Join (e # es) ''/''))"

text \<open>\<open>http.NewRequestWithContext\<close> followed by \<open>http.DefaultClient.Do\<close>: the answer is the
  next reply of the world; a request that could be built is dispatched.\<close>

definition http_do :: "string \<Rightarrow> string \<Rightarrow> string \<Rightarrow> (nat \<times> body) io" where
  "http_do method host path w =
     (let w' = w\<lparr>Calls := Suc (Calls w)\<rparr>
      in case Replies w (Calls w) of
           BuildError msg \<Rightarrow> (Inl (Error msg), w')
         | TransportError msg \<Rightarrow> (Inl (Error msg), emit (HttpDo method host path) w')
         | Response code b \<Rightarrow> (Inr (code, b), emit (HttpDo method host path) w'))"

definition sleep :: "nat \<Rightarrow> unit io" where
  "sleep secs w = (Inr (), emit (Sleep secs) (w\<lparr>Now := Now w + int secs\<rparr>))"

text \<open>The error \<open>bad response status\<close>; of the status line of the response the model
  keeps the code.\<close>

definition bad_status :: "nat \<Rightarrow> error" where
  "bad_status code = Error (''bad response status '' @ FormatUint code)"

section \<open>The dataset repository\<close>

definition ReplicaNoScale :: nat where "ReplicaNoScale = 0"
definition ReplicaScaleUP :: nat where "ReplicaScaleUP = 1"
definition ReplicaScaleDown :: nat where "ReplicaScaleDown = 2"
definition ReplicaScaleUnknown :: nat where "ReplicaScaleUnknown = 3"

definition lift :: "error + 'a \<Rightarrow> 'a io" where
  "lift r = (case r of Inl err \<Rightarrow> fail err | Inr x \<Rightarrow> return x)"

definition only_if :: "bool \<Rightarrow> unit io \<Rightarrow> unit io" where
  "only_if c m = (if c then m else return ())"

text \<open>A call whose error is dropped (\<open>_ = f()\<close>) or only logged.\<close>

definition logged :: "'a io \<Rightarrow> unit io" where
  "logged m w =
     (case m w of
        (Inl (Panic p), w') \<Rightarrow> (Inl (Panic p), w')
      | (Inl (Error e), w') \<Rightarrow> (Inr (), w')
      | (Inr x, w') \<Rightarrow> (Inr (), w'))"

text \<open>\<open>defer cleanup()\<close> around a body: the cleanup runs on every exit, also on a panic,
  and its own error is only logged.\<close>

definition deferred :: "'b io \<Rightarrow> 'a io \<Rightarrow> 'a io" where
  "deferred cleanup body w =
     (case body w of (r, w') \<Rightarrow> (case cleanup w' of (c, w'') \<Rightarrow> (r, w'')))"

definition datasetKey_of :: "string \<Rightarrow> string" where
  "datasetKey_of dataSetID = MakeStorageKey [dataSetID] StoragePrefixDataset"

definition replicaKey_of :: "string \<Rightarrow> string" where
  "replicaKey_of dataSetID = MakeStorageKey [''replica'', ''seed-peer'', dataSetID] []"

definition empty_dataset :: UrchinDataSetInfo where
  "empty_dataset =
     \<lparr>Id = [], Name = [], Desc = [], Replica = 0, CacheStrategy = [], Tags = [],
      ShareBlobSources = [], ShareBlobCaches = []\<rparr>"

text \<open>The body of the loop \<open>for k, v := range elements\<close> of \<open>GetDataSetImpl\<close> and
  \<open>getDataSetById\<close>, and the loop itself. Go visits the keys of a map in no fixed order;
  the decoded record does not depend on the order, and when several fields fail to
  decode the model reports the first in the order of the source's \<open>if\<close> chain.\<close>

definition decode_field :: "string \<Rightarrow> bytes \<Rightarrow> UrchinDataSetInfo \<Rightarrow> error + UrchinDataSetInfo" where
  "decode_field k v dataset =
     (if k = ''tags'' then Inr (dataset\<lparr>Tags := Split (string_of v) CHR ''_''\<rparr>)
      else if k = ''share_blob_sources'' then
        (case unmarshal_endpoints v of
           Inl err \<Rightarrow> Inl err | Inr xs \<Rightarrow> Inr (dataset\<lparr>ShareBlobSources := xs\<rparr>))
      else if k = ''share_blob_caches'' then
        (case unmarshal_endpoints v of
           Inl err \<Rightarrow> Inl err | Inr xs \<Rightarrow> Inr (dataset\<lparr>ShareBlobCaches := xs\<rparr>))
      else if k = ''id'' then Inr (dataset\<lparr>Id := string_of v\<rparr>)
      else if k = ''name'' then Inr (dataset\<lparr>Name := string_of v\<rparr>)
      else if k = ''desc'' then Inr (dataset\<lparr>Desc := string_of v\<rparr>)
      else if k = ''replica'' then
        (case Atoi (string_of v) of
           Inl err \<Rightarrow> Inl err | Inr tmpReplica \<Rightarrow> Inr (dataset\<lparr>Replica := word_of_int tmpReplica\<rparr>))
      else if k = ''cache_strategy'' then Inr (dataset\<lparr>CacheStrategy := string_of v\<rparr>)
      else Inr dataset)"

definition field_order :: "string list" where
  "field_order = [''tags'', ''share_blob_sources'', ''share_blob_caches'', ''id'', ''name'',
                  ''desc'', ''replica'', ''cache_strategy'']"

fun decode_fields ::
  "string list \<Rightarrow> (string \<rightharpoonup> bytes) \<Rightarrow> UrchinDataSetInfo \<Rightarrow> error + UrchinDataSetInfo" where
  "decode_fields [] elements dataset = Inr dataset"
| "decode_fields (k # ks) elements dataset =
     (case elements k of
        None \<Rightarrow> decode_fields ks elements dataset
      | Some v \<Rightarrow>
          (case decode_field k v dataset of
             Inl err \<Rightarrow> Inl err
           | Inr dataset' \<Rightarrow> decode_fields ks elements dataset'))"

definition field_text :: "(string \<rightharpoonup> bytes) \<Rightarrow> string \<Rightarrow> string" where
  "field_text elements k = (case elements k of None \<Rightarrow> [] | Some v \<Rightarrow> string_of v)"

text \<open>\<open>GetDataSetImpl\<close>. Where the \<open>id\<close> field differs from the id asked for, the source
  returns \<open>UrchinDataSetInfo{}, err\<close> with \<open>err\<close> still \<open>nil\<close> from \<open>ReadMap\<close>.\<close>

definition GetDataSetImpl :: "string \<Rightarrow> UrchinDataSetInfo io" where
  "GetDataSetImpl dataSetID =
     (if dataSetID = [] then fail (Error ''dataSet ID is empty'')
      else bind (ReadMap (datasetKey_of dataSetID)) (\<lambda>elements.
        if field_text elements ''id'' \<noteq> dataSetID then return empty_dataset
        else lift (decode_fields field_order elements empty_dataset)))"

definition getDataSetById :: "string \<Rightarrow> UrchinDataSetInfo io" where
  "getDataSetById dataSetID =
     bind (ReadMap (datasetKey_of dataSetID)) (\<lambda>elements.
       lift (decode_fields field_order elements empty_dataset))"

text \<open>The answer of an HTTP handler: 200 with a payload, 422 or 500 with the error text.\<close>

datatype 'a response =
    StatusOK 'a
  | StatusUnprocessableEntity string
  | StatusInternalServerError string

definition or500 :: "'a io \<Rightarrow> ('a \<Rightarrow> world \<Rightarrow> 'r response \<times> world) \<Rightarrow> world \<Rightarrow> 'r response \<times> world" where
  "or500 m k w =
     (case m w of
        (Inl err, w') \<Rightarrow> (StatusInternalServerError (message err), w')
      | (Inr x, w') \<Rightarrow> k x w')"

definition respond :: "'r response \<Rightarrow> world \<Rightarrow> 'r response \<times> world" where
  "respond r w = (r, w)"

text \<open>The map \<open>values\<close> that \<open>CreateDataSet\<close> writes as the primary hash.\<close>

definition create_values ::
  "string \<Rightarrow> string \<Rightarrow> string \<Rightarrow> uint \<Rightarrow> string \<Rightarrow> string list \<Rightarrow> int \<Rightarrow> (string \<times> bytes) list" where
  "create_values dataSetID dataSetName dataSetDesc replica cacheStrategy dataSetTags curTime =
     [(''id'', Raw dataSetID), (''name'', Raw dataSetName), (''desc'', Raw dataSetDesc),
      (''replica'', Raw (FormatUint (unat (if replica \<le> 0 then 1 else replica)))),
      (''cache_strategy'', Raw cacheStrategy),
      (''tags'', Raw (Join dataSetTags ''_'')),
      (''share_blob_sources'', Raw ''[]''),
      (''share_blob_caches'', Raw ''[]''),
      (''replica_state'', Raw (FormatUint ReplicaNoScale)),
      (''create_time'', Raw (FormatInt curTime)),
      (''update_time'', Raw (FormatInt curTime))]"

text \<open>\<open>CreateDataSet\<close>, after the form is bound; \<open>dataSetID\<close> is what \<open>GetUUID()\<close> returned. The
  payload of the answer is the dataset id.\<close>

definition CreateDataSet ::
  "conf_info \<Rightarrow> string \<Rightarrow> string \<Rightarrow> string \<Rightarrow> uint \<Rightarrow> string \<Rightarrow> string list
     \<Rightarrow> world \<Rightarrow> string response \<times> world" where
  "CreateDataSet conf dataSetID dataSetName dataSetDesc replica cacheStrategy dataSetTags w =
     (case validateReplica conf replica of
        Some err \<Rightarrow> (StatusUnprocessableEntity (message err), w)
      | None \<Rightarrow>
         (let datasetKey = datasetKey_of dataSetID;
              curTime = Now w;
              vals = create_values dataSetID dataSetName dataSetDesc replica cacheStrategy
                       dataSetTags curTime
          in or500 (SetMapElements datasetKey vals) (\<lambda>_.
             or500 (ZAdd DatasetCreateTimeKey dataSetID curTime) (\<lambda>_.
             or500 (only_if (0 < length dataSetName)
                      (Set (MakeStorageKey [dataSetID, ''match_prefix_name'', dataSetName] StoragePrefixDataset)
                           (Raw dataSetName))) (\<lambda>_.
             or500 (only_if (0 < length dataSetTags)
                      (Set (MakeStorageKey [dataSetID, ''match_prefix_tags'', Join dataSetTags ''_'']
                              StoragePrefixDataset)
                           (Raw (Join dataSetTags ''_'')))) (\<lambda>_.
             (\<lambda>w. case CreateDataSetVersionImpl dataSetID
                      \<lparr>VersionID = DefaultDatasetVersion, VersionName = ''default dataset version'',
                       CreateAt = curTime, MetaSources = Raw [], MetaCaches = Raw []\<rparr> w of
                    (Inl err, w') \<Rightarrow>
                      (StatusInternalServerError
                         (''create Default dataset version err:'' @ message err @ '', dataSetID:''
                            @ dataSetID), w')
                  | (Inr u, w') \<Rightarrow> (StatusOK dataSetID, w')))))) w))"

text \<open>\<open>DeleteDataSet\<close>: failures of the deletions of the index keys and of the sorted-set
  entry are only logged.\<close>

definition DeleteDataSet :: "string \<Rightarrow> world \<Rightarrow> unit response \<times> world" where
  "DeleteDataSet dataSetID =
     (let datasetKey = datasetKey_of dataSetID
      in or500 (GetMapElement datasetKey ''name'') (\<lambda>dataSetName.
         or500 (only_if (0 < length dataSetName)
                  (logged (Del (MakeStorageKey [dataSetID, ''match_prefix_name'', dataSetName]
                                  StoragePrefixDataset)))) (\<lambda>_.
         or500 (GetMapElement datasetKey ''tags'') (\<lambda>dataSetTags.
         or500 (only_if (0 < length dataSetTags)
                  (logged (Del (MakeStorageKey [dataSetID, ''match_prefix_tags'', dataSetTags]
                                  StoragePrefixDataset)))) (\<lambda>_.
         or500 (logged (ZRem DatasetCreateTimeKey dataSetID)) (\<lambda>_.
         or500 (DeleteMap datasetKey) (\<lambda>_.
         or500 (Del datasetKey) (\<lambda>_.
         respond (StatusOK ())))))))))"

section \<open>The replication controller\<close>

definition setReplicaState :: "string \<Rightarrow> nat \<Rightarrow> unit io" where
  "setReplicaState dataSetID state =
     SetMapElement (datasetKey_of dataSetID) ''replica_state'' (Raw (FormatInt (int state)))"

text \<open>
  Slice expressions. \<open>s[0:n]\<close> is in range up to the capacity of \<open>s\<close>, not its length: between
  the two, the result is \<open>s\<close> followed by what the backing array holds, which is the zero
  value for the slices sliced here (grown by \<open>append\<close> from \<open>make([]string, 0)\<close>, or decoded
  by \<open>json.Unmarshal\<close> into a nil slice). \<open>s[n:]\<close> is in range up to the length. Out of range,
  Go panics. \<open>append_cap\<close> is the capacity after \<open>n\<close> appends to an empty slice of capacity 0,
  \<open>json_cap\<close> that of a decoded slice of \<open>n\<close> elements; elements are 16 bytes (a string) or
  32 bytes (an \<open>UrchinEndpoint\<close>).
\<close>

definition slice_panic :: error where
  "slice_panic = Panic ''runtime error: slice bounds out of range''"

definition slice_to :: "nat \<Rightarrow> 'a \<Rightarrow> 'a list \<Rightarrow> nat \<Rightarrow> error + 'a list" where
  "slice_to capacity zero s n =
     (if n \<le> max capacity (length s) then Inr (take n s @ replicate (n - length s) zero)
      else Inl slice_panic)"

fun append_cap :: "(nat \<Rightarrow> nat) \<Rightarrow> nat \<Rightarrow> nat" where
  "append_cap grow 0 = 0"
| "append_cap grow (Suc n) =
     (let c = append_cap grow n in if n < c then c else max (Suc n) (grow c))"

definition json_cap :: "world \<Rightarrow> nat \<Rightarrow> nat \<Rightarrow> nat" where
  "json_cap w elemsize n = (if n = 0 then 0 else max n (JsonCap w elemsize n))"

definition zero_endpoint :: UrchinEndpoint where
  "zero_endpoint = \<lparr>Endpoint = [], EndpointPath = []\<rparr>"

definition reading :: "(world \<Rightarrow> 'a) \<Rightarrow> 'a io" where
  "reading f w = (Inr (f w), w)"

definition slice_from :: "'a list \<Rightarrow> nat \<Rightarrow> error + 'a list" where
  "slice_from s n = (if n \<le> length s then Inr (drop n s) else Inl slice_panic)"

fun containsString :: "string list \<Rightarrow> string \<Rightarrow> bool" where
  "containsString [] dest = False"
| "containsString (item # src) dest = (if item = dest then True else containsString src dest)"

fun differenceSlice :: "string list \<Rightarrow> string list \<Rightarrow> string list" where
  "differenceSlice [] dest = []"
| "differenceSlice (item # src) dest =
     (if \<not> containsString dest item then item # differenceSlice src dest
      else differenceSlice src dest)"

definition getReplicaHosts :: "string \<Rightarrow> string list io" where
  "getReplicaHosts dataSetID =
     bind (Exists (replicaKey_of dataSetID)) (\<lambda>exists.
       if \<not> exists then fail (Error ''internal error: can not find dataset'')
       else bind (Get (replicaKey_of dataSetID)) (\<lambda>v. lift (unmarshal_strings v)))"

definition selectScaleUpReplicaHosts ::
  "conf_info \<Rightarrow> string \<Rightarrow> uint \<Rightarrow> uint \<Rightarrow> (string list \<times> string list) io" where
  "selectScaleUpReplicaHosts conf dataSetID wantedReplica nowReplica =
     bind (getReplicaHosts dataSetID) (\<lambda>replicaHosts.
     bind (lift (GetReplicableDataSources conf)) (\<lambda>replicableDataSources.
       let replicableDataSourceCnt = (of_nat (length replicableDataSources) :: uint)
       in if replicableDataSourceCnt < wantedReplica
          then fail (Error (''wanted replicas: '' @ FormatUint (unat wantedReplica)
                      @ '' is large than replicable datasource count: ''
                      @ FormatUint (unat replicableDataSourceCnt)))
          else bind (reading (\<lambda>w. GrowCap w 16)) (\<lambda>grow.
               let candidates = differenceSlice replicableDataSources replicaHosts
               in bind (lift (slice_to (append_cap grow (length candidates)) [] candidates
                                (unat (wantedReplica - nowReplica)))) (\<lambda>scaleUpReplicas.
                  return (replicaHosts, scaleUpReplicas)))))"

definition selectScaleDownReplicaHosts :: "string \<Rightarrow> uint \<Rightarrow> string list io" where
  "selectScaleDownReplicaHosts dataSetID wantedReplica =
     bind (getReplicaHosts dataSetID) (\<lambda>replicaHosts.
     bind (reading (\<lambda>w. json_cap w 16 (length replicaHosts))) (\<lambda>capacity.
     bind (lift (slice_to capacity [] replicaHosts (unat wantedReplica))) (\<lambda>keep.
     bind (Set (replicaKey_of dataSetID) (JsonStrings keep)) (\<lambda>_.
     lift (slice_from replicaHosts (unat wantedReplica))))))"

text \<open>The closure \<open>updateDataSetFunc\<close> of \<open>UpdateDataSetImpl\<close>, with the variables it captures
  as arguments.\<close>

definition updateDataSetFunc ::
  "string \<Rightarrow> string \<Rightarrow> string \<Rightarrow> uint \<Rightarrow> string \<Rightarrow> string list
     \<Rightarrow> UrchinEndpoint list \<Rightarrow> UrchinEndpoint list \<Rightarrow> unit io" where
  "updateDataSetFunc dataSetID dataSetName dataSetDesc wantedReplica cacheStrategy dataSetTags
       shareBlobSources shareBlobCaches =
     (let datasetKey = datasetKey_of dataSetID
      in bind (only_if (0 < length dataSetName)
                 (SetMapElement datasetKey ''name'' (Raw dataSetName))) (\<lambda>_.
         bind (only_if (0 < length dataSetDesc)
                 (SetMapElement datasetKey ''desc'' (Raw dataSetDesc))) (\<lambda>_.
         bind (only_if (0 < wantedReplica)
                 (SetMapElement datasetKey ''replica'' (Raw (FormatInt (sint wantedReplica))))) (\<lambda>_.
         bind (only_if (0 < length cacheStrategy)
                 (SetMapElement datasetKey ''cache_strategy'' (Raw cacheStrategy))) (\<lambda>_.
         bind (only_if (0 < length dataSetTags)
                 (bind (GetMapElement datasetKey ''tags'') (\<lambda>oldTags.
                  bind (logged (Del (MakeStorageKey [dataSetID, ''match_prefix_tags'', oldTags]
                                       StoragePrefixDataset))) (\<lambda>_.
                  bind (SetMapElement datasetKey ''tags'' (Raw (Join dataSetTags ''_''))) (\<lambda>_.
                  Set (MakeStorageKey [dataSetID, ''match_prefix_tags'', Join dataSetTags ''_'']
                         StoragePrefixDataset)
                      (Raw (Join dataSetTags ''_''))))))) (\<lambda>_.
         bind (only_if (0 < length shareBlobSources)
                 (SetMapElement datasetKey ''share_blob_sources'' (JsonEndpoints shareBlobSources))) (\<lambda>_.
         bind (only_if (0 < length shareBlobCaches)
                 (SetMapElement datasetKey ''share_blob_caches'' (JsonEndpoints shareBlobCaches))) (\<lambda>_.
         (\<lambda>w. logged (SetMapElement datasetKey ''update_time'' (Raw (FormatInt (Now w)))) w)))))))))"

text \<open>The loop over the versions in \<open>scaleDownDatasetVersionInfo\<close>, and the function.\<close>

fun scale_down_versions :: "string \<Rightarrow> uint \<Rightarrow> UrchinDataSetVersionInfo list \<Rightarrow> unit io" where
  "scale_down_versions dataSetID wantedReplica [] = return ()"
| "scale_down_versions dataSetID wantedReplica (versionInfo # rest) =
     bind (lift (unmarshal_endpoints (MetaCaches versionInfo))) (\<lambda>metaCaches.
       if length metaCaches \<le> 0 then scale_down_versions dataSetID wantedReplica rest
       else bind (reading (\<lambda>w. json_cap w 32 (length metaCaches))) (\<lambda>capacity.
            bind (lift (slice_to capacity zero_endpoint metaCaches (unat wantedReplica)))
              (\<lambda>metaCaches'.
            bind (UpdateDataSetVersionImpl dataSetID (VersionID versionInfo)
                    \<lparr>VersionID = [], VersionName = [], CreateAt = 0, MetaSources = Raw [],
                     MetaCaches = JsonEndpoints metaCaches'\<rparr>) (\<lambda>_.
            scale_down_versions dataSetID wantedReplica rest))))"

definition scaleDownDatasetVersionInfo :: "string \<Rightarrow> uint \<Rightarrow> unit io" where
  "scaleDownDatasetVersionInfo dataSetID wantedReplica =
     bind (ListAllDataSetVersions dataSetID) (\<lambda>dataSetVersions.
       if length dataSetVersions < 1 then return ()
       else scale_down_versions dataSetID wantedReplica dataSetVersions)"

definition destroySeedPeerDataset :: "string \<Rightarrow> string \<Rightarrow> string \<Rightarrow> string \<Rightarrow> unit io" where
  "destroySeedPeerDataset dataSetID seedPeerHost bucketName folderKey =
     bind (http_do ''DELETE'' seedPeerHost
             (filepath_Join [''buckets'', bucketName, ''destroy_folder'', folderKey]))
       (\<lambda>(code, b). if code div 100 \<noteq> 2 then fail (bad_status code) else return ())"

text \<open>The loop \<open>for _, replicaHost := range ScaleDownReplicaHosts\<close>: a failed destroy is
  logged and the loop continues.\<close>

fun destroy_replicas :: "string \<Rightarrow> string \<Rightarrow> string \<Rightarrow> string list \<Rightarrow> unit io" where
  "destroy_replicas dataSetID bucketName folderKey [] = return ()"
| "destroy_replicas dataSetID bucketName folderKey (replicaHost # rest) =
     bind (logged (destroySeedPeerDataset dataSetID replicaHost bucketName folderKey)) (\<lambda>_.
       destroy_replicas dataSetID bucketName folderKey rest)"

text \<open>What the goroutine started by the scale-up branch captures: the hosts, the bucket
  name and folder key it passes to \<open>scaleUpSeedPeerDataset\<close>, and the old cache list.\<close>

record scale_up_task =
  TaskDataSetID :: string
  TaskReplicaHosts :: "string list"
  TaskScaleUpReplicas :: "string list"
  TaskBucketName :: string
  TaskFolderKey :: string
  TaskOldCaches :: "UrchinEndpoint list"

text \<open>The statements of the scale-down branch of \<open>UpdateDataSetImpl\<close> that run after the
  reset of \<open>replica_state\<close> has been deferred: select the hosts (which rewrites the replica
  directory), cut the cache list, update the record, update the versions, destroy.\<close>

definition scale_down_steps ::
  "string \<Rightarrow> string \<Rightarrow> string \<Rightarrow> uint \<Rightarrow> string \<Rightarrow> string list \<Rightarrow> UrchinEndpoint list
     \<Rightarrow> UrchinEndpoint list \<Rightarrow> string \<Rightarrow> string \<Rightarrow> scale_up_task option io" where
  "scale_down_steps dataSetID dataSetName dataSetDesc wantedReplica cacheStrategy dataSetTags
       shareBlobSources oldShareBlobCaches bucketName folderKey =
     bind (selectScaleDownReplicaHosts dataSetID wantedReplica) (\<lambda>ScaleDownReplicaHosts.
     bind (reading (\<lambda>w. json_cap w 32 (length oldShareBlobCaches))) (\<lambda>capacity.
     bind (lift (slice_to capacity zero_endpoint oldShareBlobCaches (unat wantedReplica)))
       (\<lambda>shareBlobCaches'.
     bind (updateDataSetFunc dataSetID dataSetName dataSetDesc wantedReplica
             cacheStrategy dataSetTags shareBlobSources shareBlobCaches') (\<lambda>_.
     bind (scaleDownDatasetVersionInfo dataSetID wantedReplica) (\<lambda>_.
     bind (destroy_replicas dataSetID bucketName folderKey ScaleDownReplicaHosts) (\<lambda>_.
     return None))))))"

text \<open>
  \<open>UpdateDataSetImpl\<close>. The result \<open>Inr None\<close> is \<open>nil\<close>; \<open>Inr (Some task)\<close> is \<open>nil\<close> with the
  scale-up goroutine started. In the scale-up branch the source assigns the result of
  the state reset to the variable \<open>err\<close> that held the error of
  \<open>selectScaleUpReplicaHosts\<close>, and returns that variable.
\<close>

definition UpdateDataSetImpl ::
  "conf_info \<Rightarrow> string \<Rightarrow> string \<Rightarrow> string \<Rightarrow> uint \<Rightarrow> string \<Rightarrow> string list
     \<Rightarrow> UrchinEndpoint list \<Rightarrow> UrchinEndpoint list \<Rightarrow> scale_up_task option io" where
  "UpdateDataSetImpl conf dataSetID dataSetName dataSetDesc wantedReplica cacheStrategy dataSetTags
       shareBlobSources shareBlobCaches =
     bind (GetDataSetImpl dataSetID) (\<lambda>oldDatasetInfo.
       if 0 < wantedReplica \<and> Replica oldDatasetInfo \<noteq> wantedReplica then
         if length (ShareBlobSources oldDatasetInfo) < 1
         then fail (Error ''internal error: share blob sources is valid'')
         else
           (let sourceEndpoint = Endpoint (ShareBlobSources oldDatasetInfo ! 0);
                sourceEndpointPath = EndpointPath (ShareBlobSources oldDatasetInfo ! 0);
                sourceBucketObject = SplitN2 sourceEndpointPath CHR ''.''
            in if length sourceBucketObject < 2
               then fail (Error ''internal error: share blob sources bucket is valid'')
               else if wantedReplica < Replica oldDatasetInfo then
                 bind (setReplicaState dataSetID ReplicaScaleDown) (\<lambda>_.
                 deferred (setReplicaState dataSetID ReplicaNoScale)
                  (scale_down_steps dataSetID dataSetName dataSetDesc wantedReplica cacheStrategy
                     dataSetTags shareBlobSources (ShareBlobCaches oldDatasetInfo)
                     (sourceBucketObject ! 0) (sourceBucketObject ! 1)))
               else
                 bind (setReplicaState dataSetID ReplicaScaleUP) (\<lambda>_.
                 (\<lambda>w. case selectScaleUpReplicaHosts conf dataSetID wantedReplica
                              (Replica oldDatasetInfo) w of
                        (Inl (Panic p), w') \<Rightarrow> (Inl (Panic p), w')
                      | (Inl (Error e), w') \<Rightarrow>
                          bind (setReplicaState dataSetID ReplicaNoScale) (\<lambda>_. return None) w'
                      | (Inr (replicaHosts, scaleUpReplicas), w') \<Rightarrow>
                          (Inr (Some \<lparr>TaskDataSetID = dataSetID,
                                      TaskReplicaHosts = replicaHosts,
                                      TaskScaleUpReplicas = scaleUpReplicas,
                                      TaskBucketName = (sourceBucketObject ! 0) @ ''.'' @ sourceEndpoint,
                                      TaskFolderKey = sourceBucketObject ! 1,
                                      TaskOldCaches = ShareBlobCaches oldDatasetInfo\<rparr>), w'))))
       else
         bind (updateDataSetFunc dataSetID dataSetName dataSetDesc wantedReplica cacheStrategy
                 dataSetTags shareBlobSources shareBlobCaches) (\<lambda>_. return None))"

subsection \<open>Scale-up: the cache request and the completion poll\<close>

text \<open>The closure \<open>checkObjectStatus\<close>: \<open>Inr None\<close> is the answer \<open>nil, nil\<close> (still in
  progress). A failed type assertion on a member of the decoded body is a panic.\<close>

definition member_of :: "(string \<times> jany) list \<Rightarrow> string \<Rightarrow> jany option" where
  "member_of members k = map_of members k"

definition assertion_panic :: error where
  "assertion_panic = Panic ''interface conversion''"

definition checkObjectStatus :: "string \<Rightarrow> string \<Rightarrow> string \<Rightarrow> UrchinEndpoint option io" where
  "checkObjectStatus seedPeerHost bucketName folderKey =
     bind (http_do ''GET'' seedPeerHost
             (filepath_Join [''buckets'', bucketName, ''check_folder'', folderKey]))
       (\<lambda>(code, b).
     bind (if code div 100 \<noteq> 2
           then bind (sleep 2) (\<lambda>_.
                bind (http_do ''GET'' seedPeerHost
                        (filepath_Join [''buckets'', bucketName, ''check_folder'', folderKey]))
                  (\<lambda>(code', b').
                  if code' div 100 \<noteq> 2 then fail (bad_status code') else return b'))
           else return b) (\<lambda>respBody.
       case respBody of
         NotJson \<Rightarrow> fail json_error
       | JsonObject result \<Rightarrow>
          (case member_of result ''StatusCode'' of
             Some (JNumber statusCode) \<Rightarrow>
               if statusCode = 1 then bind (sleep 20) (\<lambda>_. return None)
               else if statusCode \<noteq> 0
               then fail (Error (''bad response status '' @ FormatInt statusCode))
               else (case (member_of result ''DataEndpoint'', member_of result ''DataRoot'',
                           member_of result ''DataPath'') of
                       (Some (JString dataEndpoint), Some (JString dataRoot), Some (JString dataPath)) \<Rightarrow>
                         return (Some \<lparr>Endpoint = dataEndpoint,
                                       EndpointPath = dataRoot @ ''.'' @ dataPath\<rparr>)
                     | _ \<Rightarrow> fail assertion_panic)
           | _ \<Rightarrow> fail assertion_panic)))"

text \<open>The loop \<open>for { time.Sleep(3s); ... }\<close> of \<open>scaleUpSeedPeerDataset\<close>. It has no bound:
  a seed peer that keeps answering \<open>StatusCode = 1\<close> keeps it running, and then the
  result is \<open>None\<close>.\<close>

partial_function (option) poll ::
  "string \<Rightarrow> string \<Rightarrow> string \<Rightarrow> world \<Rightarrow> ((error + UrchinEndpoint) \<times> world) option" where
  "poll seedPeerHost bucketName folderKey w =
     (case checkObjectStatus seedPeerHost bucketName folderKey (snd (sleep 3 w)) of
        (Inl err, w') \<Rightarrow> Some (Inl err, w')
      | (Inr None, w') \<Rightarrow> poll seedPeerHost bucketName folderKey w'
      | (Inr (Some urchinEndpoint), w') \<Rightarrow> Some (Inr urchinEndpoint, w'))"

definition scaleUpSeedPeerDataset ::
  "string \<Rightarrow> string \<Rightarrow> string \<Rightarrow> world \<Rightarrow> ((error + UrchinEndpoint) \<times> world) option" where
  "scaleUpSeedPeerDataset seedPeerHost bucketName folderKey w =
     (case http_do ''POST'' seedPeerHost
             (filepath_Join [''buckets'', bucketName, ''cache_folder'', folderKey]) w of
        (Inl err, w') \<Rightarrow> Some (Inl err, w')
      | (Inr (code, b), w') \<Rightarrow>
          if code div 100 \<noteq> 2 then Some (Inl (bad_status code), w')
          else poll seedPeerHost bucketName folderKey w')"

text \<open>The loop \<open>for _, scaleUpReplica := range scaleUpReplicas\<close> of the goroutine: one
  retry after 5 seconds, and the goroutine returns when the retry fails too. The result
  is the list \<open>scaleUpCachesEndpoint\<close>.\<close>

fun scale_up_replicas ::
  "string \<Rightarrow> string \<Rightarrow> string list \<Rightarrow> UrchinEndpoint list \<Rightarrow> world
     \<Rightarrow> ((error + UrchinEndpoint list) \<times> world) option" where
  "scale_up_replicas bucketName folderKey [] scaleUpCachesEndpoint w =
     Some (Inr scaleUpCachesEndpoint, w)"
| "scale_up_replicas bucketName folderKey (scaleUpReplica # rest) scaleUpCachesEndpoint w =
     (case scaleUpSeedPeerDataset scaleUpReplica bucketName folderKey w of
        None \<Rightarrow> None
      | Some (Inr urchinEndpoint, w') \<Rightarrow>
          scale_up_replicas bucketName folderKey rest (scaleUpCachesEndpoint @ [urchinEndpoint]) w'
      | Some (Inl (Panic p), w') \<Rightarrow> Some (Inl (Panic p), w')
      | Some (Inl (Error e), w') \<Rightarrow>
          (case scaleUpSeedPeerDataset scaleUpReplica bucketName folderKey (snd (sleep 5 w')) of
             None \<Rightarrow> None
           | Some (Inl err, w'') \<Rightarrow> Some (Inl err, w'')
           | Some (Inr urchinEndpoint, w'') \<Rightarrow>
               scale_up_replicas bucketName folderKey rest
                 (scaleUpCachesEndpoint @ [urchinEndpoint]) w''))"

definition scale_up_task_run ::
  "scale_up_task \<Rightarrow> world \<Rightarrow> ((error + UrchinEndpoint list) \<times> world) option" where
  "scale_up_task_run task w =
     scale_up_replicas (TaskBucketName task) (TaskFolderKey task) (TaskScaleUpReplicas task) [] w"

subsection \<open>Scale-up: the goroutine observed after a bounded number of poll rounds\<close>

text \<open>The cache request of \<open>scaleUpSeedPeerDataset\<close>, as an event.\<close>

definition cache_request :: "string \<Rightarrow> string \<Rightarrow> string \<Rightarrow> event" where
  "cache_request host bucketName folderKey =
     HttpDo ''POST'' host (filepath_Join [''buckets'', bucketName, ''cache_folder'', folderKey])"

text \<open>
  The same loops with fuel, one unit for each round of the poll: \<open>None\<close> says that the fuel
  is used up and the poll still runs, and the world returned is the one reached so far.
  The cache request and the retry after 5 seconds take no fuel. The functions return the
  fuel that is left.
\<close>

fun poll_upto ::
  "nat \<Rightarrow> string \<Rightarrow> string \<Rightarrow> string \<Rightarrow> world \<Rightarrow> (error + UrchinEndpoint) option \<times> nat \<times> world" where
  "poll_upto 0 seedPeerHost bucketName folderKey w = (None, 0, w)"
| "poll_upto (Suc n) seedPeerHost bucketName folderKey w =
     (case checkObjectStatus seedPeerHost bucketName folderKey (snd (sleep 3 w)) of
        (Inl err, w') \<Rightarrow> (Some (Inl err), n, w')
      | (Inr None, w') \<Rightarrow> poll_upto n seedPeerHost bucketName folderKey w'
      | (Inr (Some urchinEndpoint), w') \<Rightarrow> (Some (Inr urchinEndpoint), n, w'))"

definition scaleUpSeedPeerDataset_upto ::
  "nat \<Rightarrow> string \<Rightarrow> string \<Rightarrow> string \<Rightarrow> world \<Rightarrow> (error + UrchinEndpoint) option \<times> nat \<times> world" where
  "scaleUpSeedPeerDataset_upto n seedPeerHost bucketName folderKey w =
     (case http_do ''POST'' seedPeerHost
             (filepath_Join [''buckets'', bucketName, ''cache_folder'', folderKey]) w of
        (Inl err, w') \<Rightarrow> (Some (Inl err), n, w')
      | (Inr (code, b), w') \<Rightarrow>
          if code div 100 \<noteq> 2 then (Some (Inl (bad_status code)), n, w')
          else poll_upto n seedPeerHost bucketName folderKey w')"

fun scale_up_replicas_upto ::
  "nat \<Rightarrow> string \<Rightarrow> string \<Rightarrow> string list \<Rightarrow> UrchinEndpoint list \<Rightarrow> world
     \<Rightarrow> (error + UrchinEndpoint list) option \<times> nat \<times> world" where
  "scale_up_replicas_upto n bucketName folderKey [] scaleUpCachesEndpoint w =
     (Some (Inr scaleUpCachesEndpoint), n, w)"
| "scale_up_replicas_upto n bucketName folderKey (scaleUpReplica # rest) scaleUpCachesEndpoint w =
     (case scaleUpSeedPeerDataset_upto n scaleUpReplica bucketName folderKey w of
        (None, n', w') \<Rightarrow> (None, n', w')
      | (Some (Inr urchinEndpoint), n', w') \<Rightarrow>
          scale_up_replicas_upto n' bucketName folderKey rest
            (scaleUpCachesEndpoint @ [urchinEndpoint]) w'
      | (Some (Inl (Panic p)), n', w') \<Rightarrow> (Some (Inl (Panic p)), n', w')
      | (Some (Inl (Error e)), n', w') \<Rightarrow>
          (case scaleUpSeedPeerDataset_upto n' scaleUpReplica bucketName folderKey
                  (snd (sleep 5 w')) of
             (None, n'', w'') \<Rightarrow> (None, n'', w'')
           | (Some (Inl err), n'', w'') \<Rightarrow> (Some (Inl err), n'', w'')
           | (Some (Inr urchinEndpoint), n'', w'') \<Rightarrow>
               scale_up_replicas_upto n'' bucketName folderKey rest
                 (scaleUpCachesEndpoint @ [urchinEndpoint]) w''))"

definition scale_up_task_upto ::
  "nat \<Rightarrow> scale_up_task \<Rightarrow> world \<Rightarrow> (error + UrchinEndpoint list) option \<times> nat \<times> world" where
  "scale_up_task_upto n task w =
     scale_up_replicas_upto n (TaskBucketName task) (TaskFolderKey task)
       (TaskScaleUpReplicas task) [] w"

section \<open>The listing engine\<close>

text \<open>
  Modelled from the spec: the adapter's external sort (\<open>sort(skey, by = prefix:*->field,
  offset, count, order, alpha)\<close>) is not among the sources. For each member of the set
  or sorted set the field of the hash \<open>prefix:member\<close> is the sort key, compared as text.
\<close>

definition members_of :: "world \<Rightarrow> string \<Rightarrow> string list" where
  "members_of w key =
     (case Sets w key of Some ms \<Rightarrow> ms | None \<Rightarrow> map fst (score_order (zset_of w key)))"

definition Sort :: "string \<Rightarrow> string \<Rightarrow> string \<Rightarrow> int \<Rightarrow> int \<Rightarrow> bool \<Rightarrow> string list io" where
  "Sort key prefix field offset count descending =
     command (\<lambda>w.
       (let sorted = sort_key (\<lambda>m. (field_text (hash_of w (prefix @ '':'' @ m)) field, m))
                       (members_of w key)
        in (Inr (page offset count (if descending then rev sorted else sorted)), w)))"

text \<open>The branch of \<open>ListDataSets\<close> for an empty \<open>searchKey\<close> and an empty \<open>orderBy\<close>: the ids
  come from the creation-time sorted set, and every id is hydrated by \<open>getDataSetById\<close>.\<close>

fun hydrate :: "string list \<Rightarrow> UrchinDataSetInfo list \<Rightarrow> world \<Rightarrow> UrchinDataSetInfo list response \<times> world" where
  "hydrate [] datasets = respond (StatusOK datasets)"
| "hydrate (member # rest) datasets =
     or500 (getDataSetById member) (\<lambda>dataset. hydrate rest (datasets @ [dataset]))"

definition ListDataSets_by_create_time ::
  "int \<Rightarrow> int \<Rightarrow> int \<Rightarrow> int \<Rightarrow> int \<Rightarrow> world \<Rightarrow> UrchinDataSetInfo list response \<times> world" where
  "ListDataSets_by_create_time pageIndex pageSize sortBy createdAtLess createdAtGreater w =
     (let rangeUpper = (if createdAtLess \<noteq> 0 then createdAtLess else Now w + 1);
          rangeLower = (if createdAtGreater \<noteq> 0 then createdAtGreater else 0)
      in or500 (if sortBy = 1
                then ZRangeByScore DatasetCreateTimeKey rangeLower rangeUpper pageIndex pageSize
                else ZRevRangeByScore DatasetCreateTimeKey rangeLower rangeUpper pageIndex pageSize)
           (\<lambda>members. hydrate members []) w)"

text \<open>\<open>sortAndBuildResult\<close>, which the other branches use: an id that cannot be read, or
  whose record has an empty \<open>Id\<close>, is skipped.\<close>

fun build_result :: "string list \<Rightarrow> UrchinDataSetInfo list \<Rightarrow> UrchinDataSetInfo list io" where
  "build_result [] datasets = return datasets"
| "build_result (member # rest) datasets =
     (\<lambda>w. case getDataSetById member w of
        (Inl err, w') \<Rightarrow> build_result rest datasets w'
      | (Inr dataset, w') \<Rightarrow>
          if Id dataset = [] then build_result rest datasets w'
          else build_result rest (datasets @ [dataset]) w')"

definition sortAndBuildResult ::
  "string \<Rightarrow> int \<Rightarrow> int \<Rightarrow> int \<Rightarrow> string \<Rightarrow> UrchinDataSetInfo list \<Rightarrow> UrchinDataSetInfo list io" where
  "sortAndBuildResult orderBy sortBy pageIndex pageSize sortSetKey datasets =
     bind (Sort sortSetKey StoragePrefixDataset (if orderBy = [] then ''create_time'' else orderBy)
             pageIndex pageSize (sortBy = - 1)) (\<lambda>members.
       build_result members datasets)"

text \<open>The capacity that the decoder of \<open>encoding/json\<close> gives a slice while it reads an
  array: grown by half when full, and at least 4.\<close>

fun json_array_cap :: "nat \<Rightarrow> nat" where
  "json_array_cap 0 = 0"
| "json_array_cap (Suc n) =
     (let c = json_array_cap n in if n < c then c else max 4 (c + c div 2))"

text \<open>A world with an empty store, in which no store command fails and every seed peer
  answers 200 with an empty JSON object, on a runtime where \<open>append\<close> doubles the capacity;
  and a dataset created in it.\<close>

definition world0 :: world where
  "world0 =
     \<lparr>Hashes = Map.empty, Strings = Map.empty, ZSets = Map.empty, Sets = Map.empty,
      Versions = (\<lambda>d. []), Trace = [], Faults = (\<lambda>n. False), Ops = 0,
      Replies = (\<lambda>n. Response 200 (JsonObject [])), Calls = 0, Now = 1700000000,
      GrowCap = (\<lambda>elemsize c. if c = 0 then 1 else 2 * c),
      JsonCap = (\<lambda>elemsize n. json_array_cap n)\<rparr>"

definition world_created :: world where
  "world_created =
     snd (CreateDataSet conf_example ''ds1'' ''imagenet'' ''d'' 2 ''lru'' [''cv'', ''img''] world0)"

definition world_deleted :: world where
  "world_deleted = snd (DeleteDataSet ''ds1'' world_created)"

text \<open>A dataset \<open>ds1\<close> that has a source and is cached on the given hosts, with the stored
  replica count given as text; and the world left by a delete of \<open>ds1\<close> in which the removal
  of the sorted-set entry failed (and was only logged).\<close>

definition source_example :: UrchinEndpoint where
  "source_example = \<lparr>Endpoint = ''obs.example.com'', EndpointPath = ''bkt.imagenet/train''\<rparr>"

definition cache_on :: "string \<Rightarrow> UrchinEndpoint" where
  "cache_on host = \<lparr>Endpoint = host, EndpointPath = ''cache.imagenet/train''\<rparr>"

definition world_replicated :: "string \<Rightarrow> string list \<Rightarrow> world" where
  "world_replicated replica hosts =
     world0\<lparr>Hashes := [''urchin:dataset:ds1'' \<mapsto>
               map_of [(''id'', Raw ''ds1''), (''name'', Raw ''imagenet''), (''desc'', Raw ''d''),
                       (''replica'', Raw replica), (''cache_strategy'', Raw ''lru''),
                       (''tags'', Raw ''cv_img''),
                       (''share_blob_sources'', JsonEndpoints [source_example]),
                       (''share_blob_caches'', JsonEndpoints (map cache_on hosts)),
                       (''replica_state'', Raw ''0''),
                       (''create_time'', Raw ''1700000000''),
                       (''update_time'', Raw ''1700000000'')]],
            Strings := [''replica:seed-peer:ds1'' \<mapsto> JsonStrings hosts],
            ZSets := [''urchin:dataset:create_time'' \<mapsto> [(''ds1'', 1700000000)]],
            Versions := (\<lambda>d. [])(''ds1'' :=
               [\<lparr>VersionID = ''default'', VersionName = ''default dataset version'',
                 CreateAt = 1700000000,
                 MetaSources = JsonEndpoints [\<lparr>Endpoint = ''obs.example.com'',
                                               EndpointPath = ''bkt.imagenet/train/meta.json''\<rparr>],
                 MetaCaches = JsonEndpoints (map cache_on hosts)\<rparr>])\<rparr>"

definition world_stale_index :: world where
  "world_stale_index = snd (DeleteDataSet ''ds1'' (world_created\<lparr>Faults := (\<lambda>n. n = 9)\<rparr>))"

section \<open>Traces and example worlds for the scale-up goroutine\<close>

text \<open>\<open>extends A w w'\<close>: the world \<open>w'\<close> has the trace of \<open>w\<close> followed by events that all satisfy
  \<open>A\<close>; \<open>only A m\<close>: the computation \<open>m\<close> adds only such events. \<open>cache_event\<close> are the events
  of one call of \<open>scaleUpSeedPeerDataset\<close>. \<open>elapsed es calls secs w\<close> is the world \<open>w\<close> after
  the events \<open>es\<close>, \<open>calls\<close> HTTP requests and \<open>secs\<close> seconds. The example worlds differ in
  what the seed peers answer.\<close>

definition extends :: "(event \<Rightarrow> bool) \<Rightarrow> world \<Rightarrow> world \<Rightarrow> bool" where
  "extends A w w' \<longleftrightarrow> (\<exists>es. Trace w' = Trace w @ es \<and> (\<forall>e \<in> set es. A e))"

definition cache_event :: "string \<Rightarrow> string \<Rightarrow> string \<Rightarrow> event \<Rightarrow> bool" where
  "cache_event host bucketName folderKey e \<longleftrightarrow>
     e = HttpDo ''POST'' host (filepath_Join [''buckets'', bucketName, ''cache_folder'', folderKey])
     \<or> e = HttpDo ''GET'' host (filepath_Join [''buckets'', bucketName, ''check_folder'', folderKey])
     \<or> (\<exists>n. e = Sleep n)"

definition only :: "(event \<Rightarrow> bool) \<Rightarrow> 'a io \<Rightarrow> bool" where
  "only A m \<longleftrightarrow> (\<forall>w. extends A w (snd (m w)))"


definition check_done :: body where
  "check_done = JsonObject [(''StatusCode'', JNumber 0), (''DataEndpoint'', JString ''10.0.0.4:65004''),
                            (''DataRoot'', JString ''cache''), (''DataPath'', JString ''imagenet/train'')]"


definition check_request :: "string \<Rightarrow> string \<Rightarrow> string \<Rightarrow> event" where
  "check_request host bucketName folderKey =
     HttpDo ''GET'' host (filepath_Join [''buckets'', bucketName, ''check_folder'', folderKey])"

definition elapsed :: "event list \<Rightarrow> nat \<Rightarrow> int \<Rightarrow> world \<Rightarrow> world" where
  "elapsed es calls secs w =
     w\<lparr>Trace := Trace w @ es, Calls := Calls w + calls, Now := Now w + secs\<rparr>"

definition world_check_unreachable :: world where
  "world_check_unreachable =
     world0\<lparr>Replies := (\<lambda>n. if n = 1 then TransportError ''connection reset''
                             else Response 200 check_done)\<rparr>"

definition world_check_busy :: world where
  "world_check_busy =
     world0\<lparr>Replies := (\<lambda>n. if n = 0 then Response 503 NotJson
                             else if n = 1 then Response 200 (JsonObject [(''StatusCode'', JNumber 1)])
                             else Response 200 check_done)\<rparr>"




section \<open>Replicable data sources: counting\<close>

lemma unique_acc_set: "set (unique_acc res xs) = set res \<union> set xs"
  by (induction xs arbitrary: res) auto

lemma unique_acc_distinct: "distinct res \<Longrightarrow> distinct (unique_acc res xs)"
  by (induction xs arbitrary: res) auto

lemma Unique_set: "set (Unique xs) = set xs"
  by (simp add: Unique_def unique_acc_set)

lemma Unique_distinct: "distinct (Unique xs)"
  by (simp add: Unique_def unique_acc_distinct)

lemma length_Unique: "length (Unique xs) = card (set xs)"
  using distinct_card [OF Unique_distinct, of xs] by (simp add: Unique_set)

lemma length_shuffle_from: "length (shuffle_from draw i xs) = length xs"
  by (induction i arbitrary: xs) (simp_all add: swap_def)

lemma length_Shuffle: "length (Shuffle draw xs) = length xs"
  by (simp add: Shuffle_def length_shuffle_from)

section \<open>Unfolding and evaluation rules\<close>

lemma FormatUint_small: "n < 10 \<Longrightarrow> FormatUint n = [digit_char n]"
  by (subst FormatUint.simps) simp

lemma FormatUint_large:
  "10 \<le> n \<Longrightarrow> FormatUint n = FormatUint (n div 10) @ [digit_char (n mod 10)]"
  by (subst FormatUint.simps) simp

lemmas io_defs = bind_def return_def fail_def lift_def only_if_def logged_def deferred_def
  or500_def respond_def command_def emit_def reading_def

lemmas store_defs = ReadMap_def GetMapElement_def SetMapElement_def SetMapElements_def
  DeleteMap_def Set_def Get_def Del_def Exists_def ZAdd_def ZRem_def hash_of_def zset_of_def
  CreateDataSetVersionImpl_def ListAllDataSetVersions_def UpdateDataSetVersionImpl_def
  MakeStorageKey_def StoragePrefixDataset_def DatasetCreateTimeKey_def DefaultDatasetVersion_def
  datasetKey_of_def replicaKey_of_def ErrorRedis_def ErrorNotExists_def

lemmas fmt_defs = FormatInt_def FormatUint_small FormatUint_large digit_char_def

section \<open>Text and numbers: round trips\<close>

lemma Split_no_sep: "c \<notin> set a \<Longrightarrow> Split a c = [a]"
  by (induction a) auto

lemma Split_append: "c \<notin> set a \<Longrightarrow> Split (a @ c # rest) c = a # Split rest c"
  by (induction a) auto

lemma Split_Join:
  "tags \<noteq> [] \<Longrightarrow> \<forall>t \<in> set tags. c \<notin> set t \<Longrightarrow> Split (Join tags [c]) c = tags"
proof (induction tags "[c]" rule: Join.induct)
  case 1
  then show ?case by simp
next
  case (2 x)
  then show ?case by (simp add: Split_no_sep)
next
  case (3 x y ys)
  then show ?case by (simp add: Split_append)
qed

lemma digit_val_digit_char: "d < 10 \<Longrightarrow> digit_val (digit_char d) = Some d"
proof -
  assume "d < 10"
  then have "d \<in> {0, 1, 2, 3, 4, 5, 6, 7, 8, 9}" by auto
  then show ?thesis
    by (auto simp: digit_val_def digit_char_def)
qed

lemma digit_char_not_sign: "d < 10 \<Longrightarrow> digit_char d \<noteq> CHR ''-'' \<and> digit_char d \<noteq> CHR ''+''"
proof -
  assume "d < 10"
  then have "d \<in> {0, 1, 2, 3, 4, 5, 6, 7, 8, 9}" by auto
  then show ?thesis
    by (auto simp: digit_char_def)
qed

lemma parse_digits_append:
  "parse_digits acc (xs @ ys) =
     (case parse_digits acc xs of None \<Rightarrow> None | Some a \<Rightarrow> parse_digits a ys)"
  by (induction xs arbitrary: acc) (auto split: option.splits)

lemma parse_digits_FormatUint: "parse_digits 0 (FormatUint n) = Some n"
proof (induction n rule: FormatUint.induct)
  case (1 n)
  show ?case
  proof (cases "n < 10")
    case True
    then show ?thesis by (simp add: FormatUint_small digit_val_digit_char)
  next
    case False
    then have "parse_digits 0 (FormatUint (n div 10)) = Some (n div 10)" using 1 by simp
    with False show ?thesis
      by (simp add: FormatUint_large parse_digits_append digit_val_digit_char)
  qed
qed

lemma FormatUint_head: "\<exists>d rest. d < 10 \<and> FormatUint n = digit_char d # rest"
proof (induction n rule: FormatUint.induct)
  case (1 n)
  show ?case
  proof (cases "n < 10")
    case True
    then have "FormatUint n = digit_char n # []" by (simp add: FormatUint_small)
    with True show ?thesis by blast
  next
    case False
    then have "\<exists>d rest. d < 10 \<and> FormatUint (n div 10) = digit_char d # rest" by (rule 1)
    then obtain d rest where "d < 10" "FormatUint (n div 10) = digit_char d # rest" by blast
    moreover have "FormatUint n = FormatUint (n div 10) @ [digit_char (n mod 10)]"
      using False by (simp add: FormatUint_large)
    ultimately have "d < 10 \<and> FormatUint n = digit_char d # (rest @ [digit_char (n mod 10)])"
      by simp
    then show ?thesis by blast
  qed
qed

lemma Atoi_FormatUint: "n < 2 ^ 63 \<Longrightarrow> Atoi (FormatUint n) = Inr (int n)"
proof -
  assume n: "n < 2 ^ 63"
  obtain d rest where d: "d < 10" "FormatUint n = digit_char d # rest"
    using FormatUint_head by blast
  have "take 1 (FormatUint n) \<noteq> ''-''" "take 1 (FormatUint n) \<noteq> ''+''"
    using d digit_char_not_sign [of d] by simp_all
  moreover have "int n < 2 ^ 63"
    using n by (simp only: flip: of_nat_less_iff [where ?'a = int]) simp
  moreover have "FormatUint n \<noteq> []" using d by simp
  ultimately show ?thesis
    by (simp add: Atoi_def parse_digits_FormatUint Let_def)
qed

section \<open>validateReplica\<close>

lemma sint_uint_small: "unat (w::uint) < 2 ^ 63 \<Longrightarrow> sint w = int (unat w)"
proof -
  assume "unat w < 2 ^ 63"
  then have "uint w < 2 ^ 63" by (simp add: unat_eq_nat_uint nat_less_iff del: nat_uint_eq)
  moreover have "- (2 ^ 63) \<le> uint w"
  proof -
    have "- (2 ^ 63) \<le> (0::int)" by simp
    also have "0 \<le> uint w" by simp
    finally show ?thesis .
  qed
  ultimately have "signed_take_bit 63 (uint w) = uint w"
    by (rule signed_take_bit_int_eq_self [rotated])
  then show ?thesis by (simp add: sint_uint)
qed

lemma unat_of_nat_small: "n < 2 ^ 63 \<Longrightarrow> unat (of_nat n :: uint) = n"
  by (simp add: unat_of_nat)

lemma conf_example_sources:
  "replicable_sources conf_example
     [\<lparr>SeedPeers =
        [\<lparr>Ip = ''10.0.0.1'', ObjectStoragePort = 65004\<rparr>,
         \<lparr>Ip = ''10.0.0.2'', ObjectStoragePort = 65004\<rparr>,
         \<lparr>Ip = ''10.0.0.3'', ObjectStoragePort = 0\<rparr>,
         \<lparr>Ip = ''10.0.0.4'', ObjectStoragePort = 65004\<rparr>,
         \<lparr>Ip = ''10.0.0.2'', ObjectStoragePort = 65004\<rparr>]\<rparr>]
   = {''10.0.0.2:65004'', ''10.0.0.4:65004''}"
  by (simp add: replicable_sources_def seedPeerHosts_def replicable_def conf_example_def
      host_port_def FormatInt_def FormatUint_small FormatUint_large digit_char_def insert_commute)

text \<open>
  C1 (as the code has it). When the Dynconfig lookup of the schedulers succeeds,
  \<open>validateReplica wanted\<close> returns no error if and only if
  \<open>wanted \<le> min (MaxReplicas, number of replicable data sources)\<close>, the replicable data
  sources being the distinct \<open>ip:port\<close> strings of the seed peers whose IP differs from the
  advertise IP and whose object-storage port is positive. There is no lower bound:
  \<open>wanted = 0\<close> is accepted whenever \<open>MaxReplicas \<ge> 0\<close>.
\<close>

theorem validateReplica_accepts_iff:
  assumes sch: "GetSchedulers conf = Inr ss"
    and small: "card (replicable_sources conf ss) < 2 ^ 63"
  shows "validateReplica conf wanted = None \<longleftrightarrow>
           int (unat wanted) \<le> sint (MaxReplicas conf) \<and>
           unat wanted \<le> card (replicable_sources conf ss)"
proof -
  let ?n = "card (replicable_sources conf ss)"
  let ?ds = "Shuffle (Draw conf) (Unique (seedPeerHosts (AdvertiseIP conf) ss))"
  have ds: "GetReplicableDataSources conf = Inr ?ds"
    using sch by (simp add: GetReplicableDataSources_def)
  have len: "length ?ds = ?n"
    by (simp add: length_Shuffle length_Unique replicable_sources_def)
  have v: "validateReplica conf wanted = None \<longleftrightarrow>
        \<not> sint (MaxReplicas conf) < sint wanted \<and> \<not> (of_nat ?n :: uint) < wanted"
    by (simp add: validateReplica_def ds len Let_def)
  have un: "unat (of_nat ?n :: uint) = ?n"
    using small by (rule unat_of_nat_small)
  have cnt: "\<not> (of_nat ?n :: uint) < wanted \<longleftrightarrow> unat wanted \<le> ?n"
    by (simp add: word_less_nat_alt un not_less)
  have M: "sint (MaxReplicas conf) < 2 ^ 63"
    using sint_lt [of "MaxReplicas conf"] by simp
  show ?thesis
  proof
    assume "validateReplica conf wanted = None"
    with v cnt have a: "\<not> sint (MaxReplicas conf) < sint wanted" and b: "unat wanted \<le> ?n"
      by simp_all
    from b small have "unat wanted < 2 ^ 63" by simp
    then have "sint wanted = int (unat wanted)" by (rule sint_uint_small)
    with a b show "int (unat wanted) \<le> sint (MaxReplicas conf) \<and> unat wanted \<le> ?n" by simp
  next
    assume r: "int (unat wanted) \<le> sint (MaxReplicas conf) \<and> unat wanted \<le> ?n"
    with M have "int (unat wanted) < 2 ^ 63" by linarith
    then have "unat wanted < 2 ^ 63"
      by (simp only: flip: of_nat_less_iff [where ?'a = int]) simp
    then have "sint wanted = int (unat wanted)" by (rule sint_uint_small)
    with r v cnt show "validateReplica conf wanted = None" by simp
  qed
qed

theorem validateReplica_accepts_iff_witness:
  "validateReplica conf_example 2 = None \<and> validateReplica conf_example 0 = None
   \<and> validateReplica conf_example 3 \<noteq> None"
proof -
  let ?ss = "[\<lparr>SeedPeers =
        [\<lparr>Ip = ''10.0.0.1'', ObjectStoragePort = 65004\<rparr>,
         \<lparr>Ip = ''10.0.0.2'', ObjectStoragePort = 65004\<rparr>,
         \<lparr>Ip = ''10.0.0.3'', ObjectStoragePort = 0\<rparr>,
         \<lparr>Ip = ''10.0.0.4'', ObjectStoragePort = 65004\<rparr>,
         \<lparr>Ip = ''10.0.0.2'', ObjectStoragePort = 65004\<rparr>]\<rparr>]"
  have sch: "GetSchedulers conf_example = Inr ?ss"
    by (simp add: conf_example_def)
  have c: "card (replicable_sources conf_example ?ss) = 2"
    by (simp add: conf_example_sources)
  have small: "card (replicable_sources conf_example ?ss) < 2 ^ 63"
    by (simp add: c)
  have M: "sint (MaxReplicas conf_example) = 3"
    by (simp add: conf_example_def)
  show ?thesis
    using validateReplica_accepts_iff [OF sch small, of 2]
      validateReplica_accepts_iff [OF sch small, of 0]
      validateReplica_accepts_iff [OF sch small, of 3]
    by (simp add: c M)
qed

text \<open>
  C1 as the spec states it fails at \<open>wanted = 0\<close>: the spec demands \<open>0 < wanted\<close>, the code
  accepts.
\<close>

theorem validateReplica_zero_counterexample:
  "\<not> (validateReplica conf_example 0 = None \<longleftrightarrow>
        0 < unat (0 :: uint) \<and>
        int (unat (0 :: uint)) \<le> min (sint (MaxReplicas conf_example))
                                   (int (card {''10.0.0.2:65004'', ''10.0.0.4:65004''})))"
proof -
  let ?ss = "[\<lparr>SeedPeers =
        [\<lparr>Ip = ''10.0.0.1'', ObjectStoragePort = 65004\<rparr>,
         \<lparr>Ip = ''10.0.0.2'', ObjectStoragePort = 65004\<rparr>,
         \<lparr>Ip = ''10.0.0.3'', ObjectStoragePort = 0\<rparr>,
         \<lparr>Ip = ''10.0.0.4'', ObjectStoragePort = 65004\<rparr>,
         \<lparr>Ip = ''10.0.0.2'', ObjectStoragePort = 65004\<rparr>]\<rparr>]"
  have "GetReplicableDataSources conf_example
          = Inr (Shuffle (Draw conf_example) (Unique (seedPeerHosts (AdvertiseIP conf_example) ?ss)))"
    by (simp add: GetReplicableDataSources_def conf_example_def)
  moreover have "sint (MaxReplicas conf_example) = 3"
    by (simp add: conf_example_def)
  ultimately have "validateReplica conf_example 0 = None"
    by (simp add: validateReplica_def Let_def)
  then show ?thesis by simp
qed

section \<open>Create, get and delete\<close>

lemma conf_example_hosts:
  "GetReplicableDataSources conf_example = Inr [''10.0.0.4:65004'', ''10.0.0.2:65004'']"
  by (simp add: GetReplicableDataSources_def conf_example_def Shuffle_def Unique_def swap_def
      seedPeerHosts_def replicable_def host_port_def fmt_defs)

lemma validateReplica_conf_example_2: "validateReplica conf_example 2 = None"
  by (simp add: validateReplica_def conf_example_hosts) (simp add: conf_example_def)

lemma CreateDataSet_hash:
  assumes "CreateDataSet conf dataSetID name desc replica cs tags w = (StatusOK r, w')"
  shows "Hashes w' (datasetKey_of dataSetID)
           = Some (hash_of w (datasetKey_of dataSetID)
                    ++ map_of (rev (create_values dataSetID name desc replica cs tags (Now w))))"
  using assms unfolding CreateDataSet_def
  by (auto simp: Let_def io_defs SetMapElements_def ZAdd_def Set_def CreateDataSetVersionImpl_def hash_of_def
       split: option.splits if_splits)

lemma GetDataSetImpl_created:
  assumes h: "Hashes w (datasetKey_of dataSetID)
           = Some (m ++ map_of (rev (create_values dataSetID name desc replica cs tags t)))"
    and id: "dataSetID \<noteq> []"
    and small: "unat replica < 2 ^ 63"
    and read: "\<not> Faults w (Ops w)"
  shows "fst (GetDataSetImpl dataSetID w) =
           Inr \<lparr>Id = dataSetID, Name = name, Desc = desc,
                Replica = (if replica = 0 then 1 else replica), CacheStrategy = cs,
                Tags = Split (Join tags ''_'') CHR ''_'',
                ShareBlobSources = [], ShareBlobCaches = []\<rparr>"
proof -
  let ?r = "if replica = 0 then 1 else replica"
  have r: "unat ?r < 2 ^ 63" using small by simp
  have a: "Atoi (FormatUint (unat ?r)) = Inr (int (unat ?r))"
    using r by (rule Atoi_FormatUint)
  show ?thesis
    using id read a
    by (simp add: GetDataSetImpl_def bind_def ReadMap_def command_def hash_of_def h create_values_def
        field_text_def lift_def field_order_def decode_field_def empty_dataset_def return_def Let_def)
qed

text \<open>
  C8 (as the code has it). For every create input whose tags list is non-empty and has
  no tag containing \<open>_\<close>, a successful \<open>CreateDataSet\<close> followed by \<open>GetDataSetImpl\<close> (the
  read not hit by a store failure) yields the record that was created: the id, name,
  description, cache strategy and tags of the input, the replica of the input with 0
  stored as 1, and empty endpoint lists (the text \<open>[]\<close> decoded). The replica is below
  \<open>2^63\<close>, as every replica accepted by \<open>validateReplica\<close> is.
\<close>

theorem create_get_roundtrip:
  assumes ok: "CreateDataSet conf dataSetID name desc replica cs tags w = (StatusOK r, w')"
    and id: "dataSetID \<noteq> []"
    and tags: "tags \<noteq> []" "\<forall>t\<in>set tags. CHR ''_'' \<notin> set t"
    and small: "unat replica < 2 ^ 63"
    and read: "\<not> Faults w' (Ops w')"
  shows "fst (GetDataSetImpl dataSetID w') =
           Inr \<lparr>Id = dataSetID, Name = name, Desc = desc,
                Replica = (if replica = 0 then 1 else replica), CacheStrategy = cs, Tags = tags,
                ShareBlobSources = [], ShareBlobCaches = []\<rparr>"
  using GetDataSetImpl_created [OF CreateDataSet_hash [OF ok] id small read] Split_Join [OF tags]
  by simp

lemma world_created_eq:
  "world_created = 
  \<lparr>Hashes = [''urchin:dataset:ds1'' \<mapsto> map_of (rev [(''id'', Raw ''ds1''), (''name'', Raw ''imagenet''),
    (''desc'', Raw ''d''), (''replica'', Raw ''2''),
    (''cache_strategy'', Raw ''lru''), (''tags'', Raw ''cv_img''),
    (''share_blob_sources'', Raw ''[]''),
    (''share_blob_caches'', Raw ''[]''), (''replica_state'', Raw ''0''),
    (''create_time'', Raw ''1700000000''),
    (''update_time'', Raw ''1700000000'')])],
   Strings = [''urchin:dataset:ds1:match_prefix_name:imagenet'' \<mapsto> Raw ''imagenet'',
              ''urchin:dataset:ds1:match_prefix_tags:cv_img'' \<mapsto> Raw ''cv_img''],
   ZSets = [''urchin:dataset:create_time'' \<mapsto> [(''ds1'', 1700000000)]], Sets = Map.empty,
   Versions = (\<lambda>d. [])(''ds1'' := [\<lparr>VersionID = ''default'', VersionName = ''default dataset version'',
      CreateAt = 1700000000, MetaSources = Raw [], MetaCaches = Raw []\<rparr>]),
   Trace = Trace world_created, Faults = (\<lambda>n. False), Ops = 5,
      Replies = (\<lambda>n. Response 200 (JsonObject [])), Calls = 0, Now = 1700000000,
      GrowCap = (\<lambda>elemsize c. if c = 0 then 1 else 2 * c),
      JsonCap = (\<lambda>elemsize n. json_array_cap n)\<rparr>"
  unfolding world_created_def CreateDataSet_def
  by (simp add: validateReplica_conf_example_2 world0_def io_defs store_defs fmt_defs create_values_def
       ReplicaNoScale_def Let_def)

lemma CreateDataSet_example_ok:
  "fst (CreateDataSet conf_example ''ds1'' ''imagenet'' ''d'' 2 ''lru'' [''cv'', ''img''] world0) = StatusOK ''ds1''"
  unfolding CreateDataSet_def
  by (simp add: validateReplica_conf_example_2 world0_def io_defs store_defs Let_def)

theorem create_get_roundtrip_witness:
  "fst (GetDataSetImpl ''ds1'' world_created) =
     Inr \<lparr>Id = ''ds1'', Name = ''imagenet'', Desc = ''d'', Replica = 2, CacheStrategy = ''lru'',
          Tags = [''cv'', ''img''], ShareBlobSources = [], ShareBlobCaches = []\<rparr>"
proof -
  have ok: "CreateDataSet conf_example ''ds1'' ''imagenet'' ''d'' 2 ''lru'' [''cv'', ''img''] world0
              = (StatusOK ''ds1'', world_created)"
    using CreateDataSet_example_ok by (simp add: world_created_def prod_eq_iff)
  have read: "\<not> Faults world_created (Ops world_created)"
    by (subst (1 2) world_created_eq) simp
  show ?thesis
    using create_get_roundtrip [OF ok _ _ _ _ read] by simp
qed


lemma CreateDataSet_world0_ok:
  "fst (CreateDataSet conf_example ''ds1'' name desc 2 cs tags world0) = StatusOK ''ds1''"
  unfolding CreateDataSet_def
  by (simp add: validateReplica_conf_example_2 world0_def io_defs store_defs Let_def)

lemma CreateDataSet_world0_faults:
  "Faults (snd (CreateDataSet conf_example ''ds1'' name desc 2 cs tags world0)) n = False"
  unfolding CreateDataSet_def
  by (simp add: validateReplica_conf_example_2 world0_def io_defs store_defs Let_def)

text \<open>
  C8 as the spec states it fails for the empty tags list: it is written as the empty text
  and read back as the list holding one empty tag.
\<close>

theorem create_get_empty_tags_counterexample:
  "fst (CreateDataSet conf_example ''ds1'' ''imagenet'' ''d'' 2 ''lru'' [] world0) = StatusOK ''ds1''
   \<and> fst (GetDataSetImpl ''ds1''
           (snd (CreateDataSet conf_example ''ds1'' ''imagenet'' ''d'' 2 ''lru'' [] world0)))
       \<noteq> Inr \<lparr>Id = ''ds1'', Name = ''imagenet'', Desc = ''d'', Replica = 2, CacheStrategy = ''lru'',
               Tags = [], ShareBlobSources = [], ShareBlobCaches = []\<rparr>"
proof -
  let ?w = "snd (CreateDataSet conf_example ''ds1'' ''imagenet'' ''d'' 2 ''lru'' [] world0)"
  have ok: "CreateDataSet conf_example ''ds1'' ''imagenet'' ''d'' 2 ''lru'' [] world0
              = (StatusOK ''ds1'', ?w)"
    using CreateDataSet_world0_ok [of "''imagenet''" "''d''" "''lru''" "[]"]
    by (simp add: prod_eq_iff)
  have read: "\<not> Faults ?w (Ops ?w)"
    by (simp add: CreateDataSet_world0_faults)
  have "fst (GetDataSetImpl ''ds1'' ?w) =
          Inr \<lparr>Id = ''ds1'', Name = ''imagenet'', Desc = ''d'', Replica = 2, CacheStrategy = ''lru'',
               Tags = [[]], ShareBlobSources = [], ShareBlobCaches = []\<rparr>"
    using GetDataSetImpl_created [OF CreateDataSet_hash [OF ok] _ _ read] by simp
  then show ?thesis using CreateDataSet_world0_ok [of "''imagenet''" "''d''" "''lru''" "[]"] by simp
qed

lemma DeleteDataSet_example:
  "fst (DeleteDataSet ''ds1'' world_created) = StatusOK ()
   \<and> Hashes world_deleted ''urchin:dataset:ds1'' = None
   \<and> Strings world_deleted ''urchin:dataset:ds1:match_prefix_name:imagenet'' = None
   \<and> Strings world_deleted ''urchin:dataset:ds1:match_prefix_tags:cv_img'' = None
   \<and> ZSets world_deleted ''urchin:dataset:create_time'' = None
   \<and> \<not> Faults world_deleted (Ops world_deleted)"
  unfolding world_deleted_def DeleteDataSet_def
  by (subst (1 2 3 4 5 6 7) world_created_eq) (simp add: io_defs store_defs Let_def)

text \<open>
  C2 at a concrete dataset: \<open>ds1\<close> is created and deleted, the deletion succeeds and the
  primary hash is gone, and a lookup of \<open>ds1\<close> then returns the zero record with no error,
  where the claim expects an error.
\<close>

theorem GetDataSetImpl_after_delete:
  "fst (DeleteDataSet ''ds1'' world_created) = StatusOK ()
   \<and> Hashes world_deleted ''urchin:dataset:ds1'' = None
   \<and> fst (GetDataSetImpl ''ds1'' world_deleted) = Inr empty_dataset"
  using DeleteDataSet_example
  by (simp add: GetDataSetImpl_def ReadMap_def io_defs field_text_def store_defs)

text \<open>
  C9 as the spec states it fails right after a create: the dataset has replica 2 and an
  empty source list.
\<close>

theorem create_stores_no_sources_counterexample:
  "fst (CreateDataSet conf_example ''ds1'' ''imagenet'' ''d'' 2 ''lru'' [''cv'', ''img''] world0)
     = StatusOK ''ds1''
   \<and> fst (GetDataSetImpl ''ds1'' world_created) =
       Inr \<lparr>Id = ''ds1'', Name = ''imagenet'', Desc = ''d'', Replica = 2, CacheStrategy = ''lru'',
            Tags = [''cv'', ''img''], ShareBlobSources = [], ShareBlobCaches = []\<rparr>
   \<and> (0 :: uint) < 2 \<and> \<not> 1 \<le> length ([] :: UrchinEndpoint list)"
proof -
  have ok: "CreateDataSet conf_example ''ds1'' ''imagenet'' ''d'' 2 ''lru'' [''cv'', ''img''] world0
              = (StatusOK ''ds1'', world_created)"
    using CreateDataSet_example_ok by (simp add: world_created_def prod_eq_iff)
  have read: "\<not> Faults world_created (Ops world_created)"
    by (subst (1 2) world_created_eq) simp
  show ?thesis
    using GetDataSetImpl_created [OF CreateDataSet_hash [OF ok] _ _ read] ok by simp
qed

text \<open>
  C9 (as the code has it). Immediately after a successful \<open>CreateDataSet\<close> the dataset has
  a replica of at least 1 and an empty \<open>share_blob_sources\<close> list; and \<open>UpdateDataSetImpl\<close>
  refuses to change the replica of a dataset whose \<open>share_blob_sources\<close> is empty: it returns
  the error \<open>internal error: share blob sources is valid\<close> and has only read the record.
\<close>

theorem replica_change_needs_sources:
  "(CreateDataSet conf dataSetID name desc replica cs tags w = (StatusOK r, w')
      \<and> dataSetID \<noteq> [] \<and> unat replica < 2 ^ 63 \<and> \<not> Faults w' (Ops w')
    \<longrightarrow> (\<exists>d. fst (GetDataSetImpl dataSetID w') = Inr d \<and> 1 \<le> unat (Replica d)
             \<and> ShareBlobSources d = []))
   \<and> (GetDataSetImpl dataSetID v = (Inr old, v') \<and> 0 < wanted \<and> Replica old \<noteq> wanted
        \<and> ShareBlobSources old = []
    \<longrightarrow> UpdateDataSetImpl conf dataSetID name' desc' wanted cs' tags' sources caches v
          = (Inl (Error ''internal error: share blob sources is valid''), v'))"
proof (intro conjI impI)
  assume a: "CreateDataSet conf dataSetID name desc replica cs tags w = (StatusOK r, w')
      \<and> dataSetID \<noteq> [] \<and> unat replica < 2 ^ 63 \<and> \<not> Faults w' (Ops w')"
  then have ok: "CreateDataSet conf dataSetID name desc replica cs tags w = (StatusOK r, w')"
    and id: "dataSetID \<noteq> []" and small: "unat replica < 2 ^ 63" and read: "\<not> Faults w' (Ops w')"
    by simp_all
  have "1 \<le> unat (if replica = 0 then 1 else replica)"
    by (simp add: unat_gt_0 Suc_le_eq)
  then show "\<exists>d. fst (GetDataSetImpl dataSetID w') = Inr d \<and> 1 \<le> unat (Replica d)
             \<and> ShareBlobSources d = []"
    using GetDataSetImpl_created [OF CreateDataSet_hash [OF ok] id small read] by simp
next
  assume "GetDataSetImpl dataSetID v = (Inr old, v') \<and> 0 < wanted \<and> Replica old \<noteq> wanted
        \<and> ShareBlobSources old = []"
  then show "UpdateDataSetImpl conf dataSetID name' desc' wanted cs' tags' sources caches v
          = (Inl (Error ''internal error: share blob sources is valid''), v')"
    by (simp add: UpdateDataSetImpl_def bind_def fail_def)
qed

theorem replica_change_needs_sources_witness:
  "(\<exists>d. fst (GetDataSetImpl ''ds1'' world_created) = Inr d \<and> 1 \<le> unat (Replica d)
             \<and> ShareBlobSources d = [])
   \<and> fst (UpdateDataSetImpl conf_example ''ds1'' [] [] 3 [] [] [] [] world_created)
       = Inl (Error ''internal error: share blob sources is valid'')"
proof -
  have ok: "CreateDataSet conf_example ''ds1'' ''imagenet'' ''d'' 2 ''lru'' [''cv'', ''img''] world0
              = (StatusOK ''ds1'', world_created)"
    using CreateDataSet_example_ok by (simp add: world_created_def prod_eq_iff)
  have read: "\<not> Faults world_created (Ops world_created)"
    by (subst (1 2) world_created_eq) simp
  have get: "fst (GetDataSetImpl ''ds1'' world_created) =
       Inr \<lparr>Id = ''ds1'', Name = ''imagenet'', Desc = ''d'', Replica = 2, CacheStrategy = ''lru'',
            Tags = [''cv'', ''img''], ShareBlobSources = [], ShareBlobCaches = []\<rparr>"
    using GetDataSetImpl_created [OF CreateDataSet_hash [OF ok] _ _ read] by simp
  then have get': "GetDataSetImpl ''ds1'' world_created =
       (Inr \<lparr>Id = ''ds1'', Name = ''imagenet'', Desc = ''d'', Replica = 2, CacheStrategy = ''lru'',
            Tags = [''cv'', ''img''], ShareBlobSources = [], ShareBlobCaches = []\<rparr>,
        snd (GetDataSetImpl ''ds1'' world_created))"
    by (simp add: prod_eq_iff)
  show ?thesis
    using replica_change_needs_sources [where conf = conf_example and dataSetID = "''ds1''"
        and name = "''imagenet''" and desc = "''d''" and replica = 2 and cs = "''lru''"
        and tags = "[''cv'', ''img'']" and w = world0 and r = "''ds1''" and w' = world_created
        and v = world_created and wanted = 3 and name' = "[]" and desc' = "[]" and cs' = "[]"
        and tags' = "[]" and sources = "[]" and caches = "[]"
        and v' = "snd (GetDataSetImpl ''ds1'' world_created)"
        and old = "\<lparr>Id = ''ds1'', Name = ''imagenet'', Desc = ''d'', Replica = 2,
            CacheStrategy = ''lru'', Tags = [''cv'', ''img''], ShareBlobSources = [],
            ShareBlobCaches = []\<rparr>"]
      ok read get'
    by simp
qed

section \<open>Scale-up with too few candidates\<close>

lemmas ctl_defs = UpdateDataSetImpl_def scale_down_steps_def GetDataSetImpl_def setReplicaState_def
  selectScaleUpReplicaHosts_def selectScaleDownReplicaHosts_def getReplicaHosts_def
  updateDataSetFunc_def scaleDownDatasetVersionInfo_def destroySeedPeerDataset_def
  slice_to_def slice_from_def slice_panic_def json_cap_def zero_endpoint_def field_text_def field_order_def decode_field_def empty_dataset_def
  http_do_def

lemma Atoi_1: "Atoi ''1'' = Inr 1"
  by (simp add: Atoi_def digit_val_def)

lemma Atoi_3: "Atoi ''3'' = Inr 3"
  by (simp add: Atoi_def digit_val_def)

text \<open>
  C3 at two concrete inputs. With two replicable sources and one replica, an update to
  \<open>wanted = 5\<close> finds too few candidates: the state is reset, but the function returns \<open>nil\<close>,
  not an error. With a replica directory of two hosts for a stored replica of 1, an
  update to \<open>wanted = 2\<close> passes the count check, the slice of the empty candidate list
  panics, and \<open>replica_state\<close> stays \<open>ScaleUp\<close>.
\<close>

theorem scale_up_over_capacity_returns_nil:
  "fst (UpdateDataSetImpl conf_example ''ds1'' [] [] 5 [] [] [] []
          (world_replicated ''1'' [''10.0.0.2:65004''])) = Inr None
   \<and> hash_of (snd (UpdateDataSetImpl conf_example ''ds1'' [] [] 5 [] [] [] []
          (world_replicated ''1'' [''10.0.0.2:65004''])))
        ''urchin:dataset:ds1'' ''replica_state'' = Some (Raw ''0'')
   \<and> fst (UpdateDataSetImpl conf_example ''ds1'' [] [] 2 [] [] [] []
          (world_replicated ''1'' [''10.0.0.2:65004'', ''10.0.0.4:65004''])) = Inl (Panic ''runtime error: slice bounds out of range'')
   \<and> hash_of (snd (UpdateDataSetImpl conf_example ''ds1'' [] [] 2 [] [] [] []
          (world_replicated ''1'' [''10.0.0.2:65004'', ''10.0.0.4:65004''])))
        ''urchin:dataset:ds1'' ''replica_state'' = Some (Raw ''1'')"
  by (simp add: ctl_defs world_replicated_def world0_def conf_example_hosts Atoi_1
      io_defs store_defs fmt_defs source_example_def cache_on_def
      ReplicaScaleUP_def ReplicaNoScale_def Let_def)

section \<open>Listing and records without a primary hash\<close>

lemma stale:
  "fst (DeleteDataSet ''ds1'' (world_created\<lparr>Faults := (\<lambda>n. n = 9)\<rparr>)) = StatusOK ()
   \<and> Hashes world_stale_index ''urchin:dataset:ds1'' = None
   \<and> ZSets world_stale_index ''urchin:dataset:create_time'' = Some [(''ds1'', 1700000000)]
   \<and> Ops world_stale_index = 12 \<and> Faults world_stale_index = (\<lambda>n. n = 9)
   \<and> Now world_stale_index = 1700000000"
  unfolding world_stale_index_def DeleteDataSet_def
  by (subst (1 2 3 4 5 6) world_created_eq) (simp add: io_defs store_defs Let_def)

text \<open>
  C7 at a concrete store: the creation-time sorted set still lists \<open>ds1\<close>, whose primary
  hash is gone. The listing without search key and order returns one zero record for
  it, where the claim expects the id to be dropped. (\<open>sortAndBuildResult\<close>, used by the
  other branches, does drop it: lemma \<open>build_result_drops\<close>.)
\<close>

theorem listing_returns_placeholder:
  "fst (DeleteDataSet ''ds1'' (world_created\<lparr>Faults := (\<lambda>n. n = 9)\<rparr>)) = StatusOK ()
   \<and> Hashes world_stale_index ''urchin:dataset:ds1'' = None
   \<and> fst (ListDataSets_by_create_time 0 10 1 0 0 world_stale_index) = StatusOK [empty_dataset]"
  using stale
  by (simp add: ListDataSets_by_create_time_def ZRangeByScore_def getDataSetById_def ReadMap_def
      score_order_def page_def io_defs store_defs field_order_def Let_def)

lemma build_result_drops:
  "build_result members datasets w = (Inr ds, w') \<Longrightarrow>
   \<forall>d \<in> set ds. d \<in> set datasets \<or> Id d \<noteq> []"
proof (induction members arbitrary: datasets w)
  case Nil
  then show ?case by (simp add: return_def)
next
  case (Cons member rest)
  then show ?case
    by (fastforce split: prod.splits sum.splits if_splits)
qed

section \<open>Scale-up: what the goroutine sends\<close>

lemma extends_refl: "extends A w w"
  by (simp add: extends_def)


lemma extends_mono: "extends A w w' \<Longrightarrow> (\<And>e. A e \<Longrightarrow> B e) \<Longrightarrow> extends B w w'"
  by (auto simp: extends_def)

lemma extends_emit: "A e \<Longrightarrow> Trace w' = Trace w \<Longrightarrow> extends A w (emit e w')"
  by (simp add: extends_def emit_def)



lemma SplitN2_bucket_object:
  "c \<notin> set bucket \<Longrightarrow> SplitN2 (bucket @ c # object) c = [bucket, object]"
  by (induction bucket) auto


lemma only_return: "only A (return x)"
  by (simp add: only_def return_def extends_refl)

lemma only_fail: "only A (fail e)"
  by (simp add: only_def fail_def extends_refl)

lemma only_lift: "only A (lift r)"
  by (simp add: lift_def only_return only_fail split: sum.splits)




lemma example_paths:
  "filepath_Join [''buckets'', ''bkt.obs.example.com'', ''cache_folder'', ''imagenet/train'']
     = ''buckets/bkt.obs.example.com/cache_folder/imagenet/train''"
  "filepath_Join [''buckets'', ''bkt.obs.example.com'', ''check_folder'', ''imagenet/train'']
     = ''buckets/bkt.obs.example.com/check_folder/imagenet/train''"
  by (simp_all add: filepath_Join_def Clean_def Let_def)

text \<open>The poll with fuel and the poll agree: the poll returns exactly when some fuel is
  enough, and then with the same result and world.\<close>

lemma poll_upto_poll:
  "poll_upto n h b k w = (Some r, m, w') \<Longrightarrow> poll h b k w = Some (r, w')"
proof (induction n arbitrary: w)
  case 0 then show ?case by simp
next
  case (Suc n)
  show ?case
    using Suc.prems Suc.IH
    by (subst poll.simps) (auto split: prod.splits sum.splits option.splits)
qed

lemma poll_poll_upto_aux:
  assumes "poll h b k w = Some y"
  shows "\<exists>n. poll_upto (Suc n) h b k w = (Some (fst y), 0, snd y)"
proof (rule poll.raw_induct [where P = "\<lambda>h b k w y. \<exists>n. poll_upto (Suc n) h b k w = (Some (fst y), 0, snd y)", OF _ assms])
  fix poll' h b k w y
  assume 1: "\<And>h b k w y. poll' h b k w = Some y \<Longrightarrow> \<exists>n. poll_upto (Suc n) h b k w = (Some (fst y), 0, snd y)"
    "(case checkObjectStatus h b k (snd (sleep 3 w)) of
        (Inl err, w') \<Rightarrow> Some (Inl err, w')
      | (Inr None, w') \<Rightarrow> poll' h b k w'
      | (Inr (Some urchinEndpoint), w') \<Rightarrow> Some (Inr urchinEndpoint, w')) = Some y"
  let ?w3 = "snd (sleep 3 w)"
  obtain c v where c: "checkObjectStatus h b k ?w3 = (c, v)"
    by (cases "checkObjectStatus h b k ?w3")
  show "\<exists>n. poll_upto (Suc n) h b k w = (Some (fst y), 0, snd y)"
  proof (cases c)
    case (Inl err)
    with 1(2) c have "poll_upto (Suc 0) h b k w = (Some (fst y), 0, snd y)" by auto
    then show ?thesis ..
  next
    case (Inr x)
    show ?thesis
    proof (cases x)
      case None
      with Inr 1(2) c have "poll' h b k v = Some y" by simp
      then obtain n where "poll_upto (Suc n) h b k v = (Some (fst y), 0, snd y)"
        using 1(1) by blast
      with None Inr c have "poll_upto (Suc (Suc n)) h b k w = (Some (fst y), 0, snd y)"
        by simp
      then show ?thesis ..
    next
      case (Some ep)
      with Inr 1(2) c have "poll_upto (Suc 0) h b k w = (Some (fst y), 0, snd y)" by auto
      then show ?thesis ..
    qed
  qed
qed

lemma poll_poll_upto:
  "poll h b k w = Some (r, w') \<Longrightarrow> \<exists>n. poll_upto n h b k w = (Some r, 0, w')"
proof -
  assume "poll h b k w = Some (r, w')"
  then obtain n where "poll_upto (Suc n) h b k w = (Some r, 0, w')"
    using poll_poll_upto_aux [of h b k w "(r, w')"] by auto
  then show ?thesis ..
qed

lemma poll_upto_mono:
  "poll_upto n h b k w = (Some r, m, w') \<Longrightarrow> poll_upto (n + d) h b k w = (Some r, m + d, w')"
proof (induction n arbitrary: w)
  case 0 then show ?case by simp
next
  case (Suc n)
  then show ?case
    by (auto split: prod.splits sum.splits option.splits)
qed



lemma extends_TraceD: "extends A w w' \<Longrightarrow> \<exists>es. Trace w' = Trace w @ es"
  by (auto simp: extends_def)






lemma cache_event_request: "cache_event h b k (cache_request h b k)"
  by (simp add: cache_event_def cache_request_def)






lemma scaleUpSeedPeerDataset_upto_mono:
  "scaleUpSeedPeerDataset_upto n h b k w = (Some r, m, w') \<Longrightarrow>
   scaleUpSeedPeerDataset_upto (n + d) h b k w = (Some r, m + d, w')"
  by (auto simp: scaleUpSeedPeerDataset_upto_def poll_upto_mono split: prod.splits sum.splits if_splits)

lemma scaleUpSeedPeerDataset_upto_sound:
  "scaleUpSeedPeerDataset_upto n h b k w = (Some r, m, w') \<Longrightarrow>
   scaleUpSeedPeerDataset h b k w = Some (r, w')"
  by (auto simp: scaleUpSeedPeerDataset_upto_def scaleUpSeedPeerDataset_def poll_upto_poll
      split: prod.splits sum.splits if_splits)

lemma scaleUpSeedPeerDataset_upto_complete:
  assumes "scaleUpSeedPeerDataset h b k w = Some (r, w')"
  shows "\<exists>n. scaleUpSeedPeerDataset_upto n h b k w = (Some r, 0, w')"
proof -
  let ?post = "http_do ''POST'' h (filepath_Join [''buckets'', b, ''cache_folder'', k]) w"
  obtain p v where p: "?post = (p, v)" by (cases ?post)
  show ?thesis
  proof (cases p)
    case (Inl err)
    with assms p have "scaleUpSeedPeerDataset_upto 0 h b k w = (Some r, 0, w')"
      by (auto simp: scaleUpSeedPeerDataset_def scaleUpSeedPeerDataset_upto_def)
    then show ?thesis ..
  next
    case (Inr cb)
    obtain code bd where cb: "cb = (code, bd)" by (cases cb)
    show ?thesis
    proof (cases "code div 100 \<noteq> 2")
      case True
      with assms p Inr cb have "scaleUpSeedPeerDataset_upto 0 h b k w = (Some r, 0, w')"
        by (auto simp: scaleUpSeedPeerDataset_def scaleUpSeedPeerDataset_upto_def)
      then show ?thesis ..
    next
      case False
      with assms p Inr cb have "poll h b k v = Some (r, w')"
        by (simp add: scaleUpSeedPeerDataset_def)
      then obtain n where "poll_upto n h b k v = (Some r, 0, w')"
        using poll_poll_upto by blast
      with False p Inr cb have "scaleUpSeedPeerDataset_upto n h b k w = (Some r, 0, w')"
        by (simp add: scaleUpSeedPeerDataset_upto_def)
      then show ?thesis ..
    qed
  qed
qed

lemma scale_up_replicas_upto_mono:
  "scale_up_replicas_upto n b k hosts acc w = (Some r, m, w') \<Longrightarrow>
   scale_up_replicas_upto (n + d) b k hosts acc w = (Some r, m + d, w')"
proof (induction hosts arbitrary: n acc w)
  case Nil
  then show ?case by auto
next
  case (Cons h rest)
  obtain r1 n1 w1 where s1: "scaleUpSeedPeerDataset_upto n h b k w = (r1, n1, w1)"
    by (cases "scaleUpSeedPeerDataset_upto n h b k w") auto
  show ?case
  proof (cases r1)
    case None
    with Cons.prems s1 show ?thesis by simp
  next
    case (Some x)
    note m1 = scaleUpSeedPeerDataset_upto_mono [OF s1 [unfolded Some], of d]
    show ?thesis
    proof (cases x)
      case (Inr ep)
      with Cons.prems s1 Some m1 Cons.IH show ?thesis by simp
    next
      case (Inl err)
      show ?thesis
      proof (cases err)
        case (Panic p)
        with Cons.prems s1 Some m1 Inl show ?thesis by simp
      next
        case (Error msg)
        let ?v = "snd (sleep 5 w1)"
        obtain r2 n2 w2 where s2: "scaleUpSeedPeerDataset_upto n1 h b k ?v = (r2, n2, w2)"
          by (cases "scaleUpSeedPeerDataset_upto n1 h b k ?v") auto
        show ?thesis
        proof (cases r2)
          case None
          with Cons.prems s1 s2 Some Inl Error show ?thesis by simp
        next
          case (Some y)
          note m2 = scaleUpSeedPeerDataset_upto_mono [OF s2 [unfolded Some], of d]
          show ?thesis
          proof (cases y)
            case (Inl err2)
            with Cons.prems s1 s2 m1 m2 Some \<open>r1 = Some x\<close> \<open>x = Inl err\<close> Error
            show ?thesis by simp
          next
            case (Inr ep)
            with Cons.prems s1 s2 m1 m2 Some \<open>r1 = Some x\<close> \<open>x = Inl err\<close> Error Cons.IH
            show ?thesis by simp
          qed
        qed
      qed
    qed
  qed
qed

lemma scale_up_replicas_upto_sound:
  "scale_up_replicas_upto n b k hosts acc w = (Some r, m, w') \<Longrightarrow>
   scale_up_replicas b k hosts acc w = Some (r, w')"
proof (induction hosts arbitrary: n acc w)
  case Nil
  then show ?case by auto
next
  case (Cons h rest)
  obtain r1 n1 w1 where s1: "scaleUpSeedPeerDataset_upto n h b k w = (r1, n1, w1)"
    by (cases "scaleUpSeedPeerDataset_upto n h b k w") auto
  show ?case
  proof (cases r1)
    case None
    with Cons.prems s1 show ?thesis by simp
  next
    case (Some x)
    note m1 = scaleUpSeedPeerDataset_upto_sound [OF s1 [unfolded Some]]
    show ?thesis
    proof (cases x)
      case (Inr ep)
      with Cons.prems s1 Some m1 Cons.IH show ?thesis by simp
    next
      case (Inl err)
      show ?thesis
      proof (cases err)
        case (Panic p)
        with Cons.prems s1 Some m1 Inl show ?thesis by simp
      next
        case (Error msg)
        let ?v = "snd (sleep 5 w1)"
        obtain r2 n2 w2 where s2: "scaleUpSeedPeerDataset_upto n1 h b k ?v = (r2, n2, w2)"
          by (cases "scaleUpSeedPeerDataset_upto n1 h b k ?v") auto
        show ?thesis
        proof (cases r2)
          case None
          with Cons.prems s1 s2 Some Inl Error show ?thesis by simp
        next
          case (Some y)
          note m2 = scaleUpSeedPeerDataset_upto_sound [OF s2 [unfolded Some]]
          show ?thesis
          proof (cases y)
            case (Inl err2)
            with Cons.prems s1 s2 m1 m2 Some \<open>r1 = Some x\<close> \<open>x = Inl err\<close> Error
            show ?thesis by simp
          next
            case (Inr ep)
            with Cons.prems s1 s2 m1 m2 Some \<open>r1 = Some x\<close> \<open>x = Inl err\<close> Error Cons.IH
            show ?thesis by simp
          qed
        qed
      qed
    qed
  qed
qed

lemma scale_up_replicas_upto_complete:
  "scale_up_replicas b k hosts acc w = Some (r, w') \<Longrightarrow>
   \<exists>n m. scale_up_replicas_upto n b k hosts acc w = (Some r, m, w')"
proof (induction hosts arbitrary: acc w)
  case Nil
  then show ?case by auto
next
  case (Cons h rest)
  obtain r1 w1 where s1: "scaleUpSeedPeerDataset h b k w = Some (r1, w1)"
    using Cons.prems by (cases "scaleUpSeedPeerDataset h b k w") auto
  then obtain n1 where u1: "scaleUpSeedPeerDataset_upto n1 h b k w = (Some r1, 0, w1)"
    using scaleUpSeedPeerDataset_upto_complete by blast
  show ?case
  proof (cases r1)
    case (Inr ep)
    with Cons.prems s1 have "scale_up_replicas b k rest (acc @ [ep]) w1 = Some (r, w')" by simp
    then obtain n m where "scale_up_replicas_upto n b k rest (acc @ [ep]) w1 = (Some r, m, w')"
      using Cons.IH by blast
    with scaleUpSeedPeerDataset_upto_mono [OF u1, of n] Inr
    have "scale_up_replicas_upto (n1 + n) b k (h # rest) acc w = (Some r, m, w')" by simp
    then show ?thesis by blast
  next
    case (Inl err)
    show ?thesis
    proof (cases err)
      case (Panic p)
      with Inl Cons.prems s1 u1
      have "scale_up_replicas_upto n1 b k (h # rest) acc w = (Some r, 0, w')" by simp
      then show ?thesis by blast
    next
      case (Error msg)
      let ?v = "snd (sleep 5 w1)"
      obtain r2 w2 where s2: "scaleUpSeedPeerDataset h b k ?v = Some (r2, w2)"
        using Cons.prems s1 Inl Error
        by (cases "scaleUpSeedPeerDataset h b k ?v") auto
      then obtain n2 where u2: "scaleUpSeedPeerDataset_upto n2 h b k ?v = (Some r2, 0, w2)"
        using scaleUpSeedPeerDataset_upto_complete by blast
      show ?thesis
      proof (cases r2)
        case (Inl err2)
        with Cons.prems s1 s2 \<open>r1 = Inl err\<close> Error
        have "r = Inl err2" "w' = w2" by auto
        with scaleUpSeedPeerDataset_upto_mono [OF u1, of n2] u2 \<open>r1 = Inl err\<close> Error Inl
        have "scale_up_replicas_upto (n1 + n2) b k (h # rest) acc w = (Some r, 0, w')" by simp
        then show ?thesis by blast
      next
        case (Inr ep)
        with Cons.prems s1 s2 \<open>r1 = Inl err\<close> Error
        have "scale_up_replicas b k rest (acc @ [ep]) w2 = Some (r, w')" by simp
        then obtain n m where n: "scale_up_replicas_upto n b k rest (acc @ [ep]) w2 = (Some r, m, w')"
          using Cons.IH by blast
        from scaleUpSeedPeerDataset_upto_mono [OF u1, of "n2 + n"]
          scaleUpSeedPeerDataset_upto_mono [OF u2, of n] n \<open>r1 = Inl err\<close> Error Inr
        have "scale_up_replicas_upto (n1 + (n2 + n)) b k (h # rest) acc w = (Some r, m, w')"
          by simp
        then show ?thesis by blast
      qed
    qed
  qed
qed

text \<open>The run with fuel and the run of the goroutine agree: the goroutine returns
  exactly when some fuel is enough, with the same result and the same world.\<close>

lemma scale_up_task_run_upto:
  "scale_up_task_run task w = Some (r, w') \<longleftrightarrow>
     (\<exists>n m. scale_up_task_upto n task w = (Some r, m, w'))"
  unfolding scale_up_task_run_def scale_up_task_upto_def
  using scale_up_replicas_upto_complete scale_up_replicas_upto_sound by blast















lemmas poll_defs = checkObjectStatus_def http_do_def sleep_def elapsed_def check_request_def
  bind_def return_def fail_def emit_def bad_status_def Let_def

text \<open>
  C5 (as the code has it). After a cache request answered 2xx the poll starts. Every round
  sleeps 3 seconds and sends the check. A transport error of that check surfaces at
  once, with no retry. A non-2xx answer is followed by a 2-second sleep and one more
  check, whose transport error or non-2xx answer surfaces as the error. A 2xx answer
  (of the check or of its retry) with \<open>StatusCode = 1\<close> is followed by a 20-second sleep
  and the next round; with \<open>StatusCode = 0\<close> the poll returns the endpoint record
  \<open>(DataEndpoint, DataRoot . DataPath)\<close>.
\<close>

theorem poll_round:
  "(Replies w (Calls w) = Response c bd \<and> c div 100 = 2 \<longrightarrow>
      scaleUpSeedPeerDataset h b k w =
        poll h b k (elapsed [HttpDo ''POST'' h (filepath_Join [''buckets'', b, ''cache_folder'', k])] 1 0 w))
   \<and> (Replies w (Calls w) = TransportError m \<longrightarrow>
      poll h b k w = Some (Inl (Error m), elapsed [Sleep 3, check_request h b k] 1 3 w))
   \<and> (Replies w (Calls w) = Response c bd \<and> c div 100 \<noteq> 2
        \<and> Replies w (Suc (Calls w)) = TransportError m \<longrightarrow>
      poll h b k w = Some (Inl (Error m),
        elapsed [Sleep 3, check_request h b k, Sleep 2, check_request h b k] 2 5 w))
   \<and> (Replies w (Calls w) = Response c bd \<and> c div 100 \<noteq> 2
        \<and> Replies w (Suc (Calls w)) = Response c' bd' \<and> c' div 100 \<noteq> 2 \<longrightarrow>
      poll h b k w = Some (Inl (bad_status c'),
        elapsed [Sleep 3, check_request h b k, Sleep 2, check_request h b k] 2 5 w))
   \<and> (Replies w (Calls w) = Response c (JsonObject ms) \<and> c div 100 = 2
        \<and> member_of ms ''StatusCode'' = Some (JNumber 1) \<longrightarrow>
      poll h b k w = poll h b k (elapsed [Sleep 3, check_request h b k, Sleep 20] 1 23 w))
   \<and> (Replies w (Calls w) = Response c (JsonObject ms) \<and> c div 100 = 2
        \<and> member_of ms ''StatusCode'' = Some (JNumber 0)
        \<and> member_of ms ''DataEndpoint'' = Some (JString dataEndpoint)
        \<and> member_of ms ''DataRoot'' = Some (JString dataRoot)
        \<and> member_of ms ''DataPath'' = Some (JString dataPath) \<longrightarrow>
      poll h b k w = Some (Inr \<lparr>Endpoint = dataEndpoint, EndpointPath = dataRoot @ ''.'' @ dataPath\<rparr>,
        elapsed [Sleep 3, check_request h b k] 1 3 w))
   \<and> (Replies w (Calls w) = Response c bd \<and> c div 100 \<noteq> 2
        \<and> Replies w (Suc (Calls w)) = Response c' (JsonObject ms) \<and> c' div 100 = 2
        \<and> member_of ms ''StatusCode'' = Some (JNumber 1) \<longrightarrow>
      poll h b k w = poll h b k
        (elapsed [Sleep 3, check_request h b k, Sleep 2, check_request h b k, Sleep 20] 2 25 w))
   \<and> (Replies w (Calls w) = Response c bd \<and> c div 100 \<noteq> 2
        \<and> Replies w (Suc (Calls w)) = Response c' (JsonObject ms) \<and> c' div 100 = 2
        \<and> member_of ms ''StatusCode'' = Some (JNumber 0)
        \<and> member_of ms ''DataEndpoint'' = Some (JString dataEndpoint)
        \<and> member_of ms ''DataRoot'' = Some (JString dataRoot)
        \<and> member_of ms ''DataPath'' = Some (JString dataPath) \<longrightarrow>
      poll h b k w = Some (Inr \<lparr>Endpoint = dataEndpoint, EndpointPath = dataRoot @ ''.'' @ dataPath\<rparr>,
        elapsed [Sleep 3, check_request h b k, Sleep 2, check_request h b k] 2 5 w))"
proof (intro conjI impI)
  assume "Replies w (Calls w) = Response c bd \<and> c div 100 = 2"
  then show "scaleUpSeedPeerDataset h b k w =
        poll h b k (elapsed [HttpDo ''POST'' h (filepath_Join [''buckets'', b, ''cache_folder'', k])] 1 0 w)"
    by (auto simp: scaleUpSeedPeerDataset_def poll_defs intro!: arg_cong [where f = "poll h b k"])
next
  assume "Replies w (Calls w) = TransportError m"
  then show "poll h b k w = Some (Inl (Error m), elapsed [Sleep 3, check_request h b k] 1 3 w)"
    by (subst poll.simps) (simp add: poll_defs)
next
  assume "Replies w (Calls w) = Response c bd \<and> c div 100 \<noteq> 2
        \<and> Replies w (Suc (Calls w)) = TransportError m"
  then show "poll h b k w = Some (Inl (Error m),
        elapsed [Sleep 3, check_request h b k, Sleep 2, check_request h b k] 2 5 w)"
    by (subst poll.simps) (simp add: poll_defs)
next
  assume "Replies w (Calls w) = Response c bd \<and> c div 100 \<noteq> 2
        \<and> Replies w (Suc (Calls w)) = Response c' bd' \<and> c' div 100 \<noteq> 2"
  then show "poll h b k w = Some (Inl (bad_status c'),
        elapsed [Sleep 3, check_request h b k, Sleep 2, check_request h b k] 2 5 w)"
    by (subst poll.simps) (simp add: poll_defs)
next
  assume "Replies w (Calls w) = Response c (JsonObject ms) \<and> c div 100 = 2
        \<and> member_of ms ''StatusCode'' = Some (JNumber 1)"
  then show "poll h b k w = poll h b k (elapsed [Sleep 3, check_request h b k, Sleep 20] 1 23 w)"
    by (subst poll.simps) (auto simp: poll_defs intro!: arg_cong [where f = "poll h b k"])
next
  assume "Replies w (Calls w) = Response c (JsonObject ms) \<and> c div 100 = 2
        \<and> member_of ms ''StatusCode'' = Some (JNumber 0)
        \<and> member_of ms ''DataEndpoint'' = Some (JString dataEndpoint)
        \<and> member_of ms ''DataRoot'' = Some (JString dataRoot)
        \<and> member_of ms ''DataPath'' = Some (JString dataPath)"
  then show "poll h b k w = Some (Inr \<lparr>Endpoint = dataEndpoint, EndpointPath = dataRoot @ ''.'' @ dataPath\<rparr>,
        elapsed [Sleep 3, check_request h b k] 1 3 w)"
    by (subst poll.simps) (simp add: poll_defs)
next
  assume "Replies w (Calls w) = Response c bd \<and> c div 100 \<noteq> 2
        \<and> Replies w (Suc (Calls w)) = Response c' (JsonObject ms) \<and> c' div 100 = 2
        \<and> member_of ms ''StatusCode'' = Some (JNumber 1)"
  then show "poll h b k w = poll h b k
        (elapsed [Sleep 3, check_request h b k, Sleep 2, check_request h b k, Sleep 20] 2 25 w)"
    by (subst poll.simps) (auto simp: poll_defs intro!: arg_cong [where f = "poll h b k"])
next
  assume "Replies w (Calls w) = Response c bd \<and> c div 100 \<noteq> 2
        \<and> Replies w (Suc (Calls w)) = Response c' (JsonObject ms) \<and> c' div 100 = 2
        \<and> member_of ms ''StatusCode'' = Some (JNumber 0)
        \<and> member_of ms ''DataEndpoint'' = Some (JString dataEndpoint)
        \<and> member_of ms ''DataRoot'' = Some (JString dataRoot)
        \<and> member_of ms ''DataPath'' = Some (JString dataPath)"
  then show "poll h b k w = Some (Inr \<lparr>Endpoint = dataEndpoint, EndpointPath = dataRoot @ ''.'' @ dataPath\<rparr>,
        elapsed [Sleep 3, check_request h b k, Sleep 2, check_request h b k] 2 5 w)"
    by (subst poll.simps) (simp add: poll_defs)
qed

theorem poll_round_witness:
  "scaleUpSeedPeerDataset ''10.0.0.4:65004'' ''bkt.obs.example.com'' ''imagenet/train''
      world_check_unreachable
     = Some (Inl (Error ''connection reset''),
         elapsed [Sleep 3, check_request ''10.0.0.4:65004'' ''bkt.obs.example.com'' ''imagenet/train'']
           1 3
           (elapsed [HttpDo ''POST'' ''10.0.0.4:65004''
                       ''buckets/bkt.obs.example.com/cache_folder/imagenet/train'']
              1 0 world_check_unreachable))
   \<and> poll ''10.0.0.4:65004'' ''bkt.obs.example.com'' ''imagenet/train'' world_check_busy
     = Some (Inr \<lparr>Endpoint = ''10.0.0.4:65004'', EndpointPath = ''cache.imagenet/train''\<rparr>,
         elapsed [Sleep 3, check_request ''10.0.0.4:65004'' ''bkt.obs.example.com'' ''imagenet/train'']
           1 3
           (elapsed [Sleep 3, check_request ''10.0.0.4:65004'' ''bkt.obs.example.com'' ''imagenet/train'',
                     Sleep 2, check_request ''10.0.0.4:65004'' ''bkt.obs.example.com'' ''imagenet/train'',
                     Sleep 20] 2 25 world_check_busy))"
proof -
  let ?h = "''10.0.0.4:65004''" and ?b = "''bkt.obs.example.com''" and ?k = "''imagenet/train''"
  let ?post = "HttpDo ''POST'' ?h (filepath_Join [''buckets'', ?b, ''cache_folder'', ?k])"
  let ?w1 = "elapsed [?post] 1 0 world_check_unreachable"
  have r0: "Replies world_check_unreachable (Calls world_check_unreachable)
              = Response 200 check_done \<and> (200::nat) div 100 = 2"
    by (simp add: world_check_unreachable_def world0_def)
  have a: "scaleUpSeedPeerDataset ?h ?b ?k world_check_unreachable = poll ?h ?b ?k ?w1"
    using poll_round [where w = world_check_unreachable and c = 200 and bd = check_done
        and h = ?h and b = ?b and k = ?k] r0
    by blast
  have r1: "Replies ?w1 (Calls ?w1) = TransportError ''connection reset''"
    by (simp add: world_check_unreachable_def world0_def elapsed_def)
  have b: "poll ?h ?b ?k ?w1
             = Some (Inl (Error ''connection reset''), elapsed [Sleep 3, check_request ?h ?b ?k] 1 3 ?w1)"
    using poll_round [where w = ?w1 and m = "''connection reset''" and h = ?h and b = ?b and k = ?k] r1
    by blast
  let ?w2 = "elapsed [Sleep 3, check_request ?h ?b ?k, Sleep 2, check_request ?h ?b ?k, Sleep 20] 2 25
               world_check_busy"
  have r2: "Replies world_check_busy (Calls world_check_busy) = Response 503 NotJson
        \<and> (503::nat) div 100 \<noteq> 2
        \<and> Replies world_check_busy (Suc (Calls world_check_busy))
            = Response 200 (JsonObject [(''StatusCode'', JNumber 1)]) \<and> (200::nat) div 100 = 2
        \<and> member_of [(''StatusCode'', JNumber 1)] ''StatusCode'' = Some (JNumber 1)"
    by (simp add: world_check_busy_def world0_def member_of_def)
  have c: "poll ?h ?b ?k world_check_busy = poll ?h ?b ?k ?w2"
    using poll_round [where w = world_check_busy and c = 503 and bd = NotJson and c' = 200
        and ms = "[(''StatusCode'', JNumber 1)]" and h = ?h and b = ?b and k = ?k] r2
    by blast
  have r3: "Replies ?w2 (Calls ?w2) = Response 200
              (JsonObject [(''StatusCode'', JNumber 0), (''DataEndpoint'', JString ''10.0.0.4:65004''),
                            (''DataRoot'', JString ''cache''), (''DataPath'', JString ''imagenet/train'')])
        \<and> (200::nat) div 100 = 2
        \<and> member_of [(''StatusCode'', JNumber 0), (''DataEndpoint'', JString ''10.0.0.4:65004''),
                            (''DataRoot'', JString ''cache''), (''DataPath'', JString ''imagenet/train'')]
              ''StatusCode'' = Some (JNumber 0)
        \<and> member_of [(''StatusCode'', JNumber 0), (''DataEndpoint'', JString ''10.0.0.4:65004''),
                            (''DataRoot'', JString ''cache''), (''DataPath'', JString ''imagenet/train'')]
              ''DataEndpoint'' = Some (JString ''10.0.0.4:65004'')
        \<and> member_of [(''StatusCode'', JNumber 0), (''DataEndpoint'', JString ''10.0.0.4:65004''),
                            (''DataRoot'', JString ''cache''), (''DataPath'', JString ''imagenet/train'')]
              ''DataRoot'' = Some (JString ''cache'')
        \<and> member_of [(''StatusCode'', JNumber 0), (''DataEndpoint'', JString ''10.0.0.4:65004''),
                            (''DataRoot'', JString ''cache''), (''DataPath'', JString ''imagenet/train'')]
              ''DataPath'' = Some (JString ''imagenet/train'')"
    by (simp add: world_check_busy_def world0_def member_of_def elapsed_def check_done_def)
  have d: "poll ?h ?b ?k ?w2
     = Some (Inr \<lparr>Endpoint = ''10.0.0.4:65004'', EndpointPath = ''cache'' @ ''.'' @ ''imagenet/train''\<rparr>,
         elapsed [Sleep 3, check_request ?h ?b ?k] 1 3 ?w2)"
    using poll_round [where w = ?w2 and c = 200
        and ms = "[(''StatusCode'', JNumber 0), (''DataEndpoint'', JString ''10.0.0.4:65004''),
                            (''DataRoot'', JString ''cache''), (''DataPath'', JString ''imagenet/train'')]"
        and dataEndpoint = "''10.0.0.4:65004''" and dataRoot = "''cache''"
        and dataPath = "''imagenet/train''" and h = ?h and b = ?b and k = ?k] r3
    by blast
  show ?thesis
    using a b c d by (simp add: example_paths)
qed

text \<open>
  C5 as the spec states it fails when the first check meets a transport error: the
  next answer would have been a success, but there is no 2-second wait and no second
  check; the error is returned after the cache request, one sleep and one check.
\<close>

theorem check_transport_error_counterexample:
  "Replies world_check_unreachable 1 = TransportError ''connection reset''
   \<and> Replies world_check_unreachable 2 = Response 200 check_done
   \<and> scaleUpSeedPeerDataset ''10.0.0.4:65004'' ''bkt.obs.example.com'' ''imagenet/train''
        world_check_unreachable
     = Some (Inl (Error ''connection reset''),
         world_check_unreachable\<lparr>Trace :=
             [HttpDo ''POST'' ''10.0.0.4:65004''
                ''buckets/bkt.obs.example.com/cache_folder/imagenet/train'',
              Sleep 3,
              HttpDo ''GET'' ''10.0.0.4:65004''
                ''buckets/bkt.obs.example.com/check_folder/imagenet/train''],
           Calls := 2, Now := 1700000003\<rparr>)"
  apply (simp add: scaleUpSeedPeerDataset_def)
  apply (subst poll.simps)
  apply (simp add: world_check_unreachable_def world0_def http_do_def checkObjectStatus_def sleep_def
      check_done_def member_of_def io_defs example_paths)
  done

end
